theory Spec2Isabelle
  imports Main "HOL-Library.Word"
begin

unbundle bit_operations_syntax

section \<open>The vanilla-pipe broker for macOS\<close>

text \<open>
  A shallow embedding of \<^verbatim>\<open>src/pipe/macos/main.c\<close>. The program is a single
  function \<^verbatim>\<open>main\<close>: it parses its arguments, initialises the Wi-Fi interface, binds
  one datagram socket and then serves command frames in a loop until the flag
  \<^verbatim>\<open>running\<close> is cleared. Everything the program does to the outside world (log lines,
  Wi-Fi calls of \<^verbatim>\<open>wifi.h\<close>, socket calls) is recorded, in order, in a trace of actions;
  everything the outside world answers (return values, received datagrams, signals) is an
  input of the model.
\<close>

subsection \<open>Constants and layout of the missing headers\<close>

type_synonym byte = "8 word"
type_synonym u32 = "32 word"

datatype endian = LittleEndian | BigEndian

text \<open>
  The headers \<^verbatim>\<open>../def.h\<close> and \<^verbatim>\<open>../ports.h\<close> are not among the sources. What
  \<^verbatim>\<open>main.c\<close> takes from them is a parameter of the model: the six one-byte control
  codes, the two result codes passed to \<^verbatim>\<open>htonl\<close>, the size of
  \<^verbatim>\<open>vanilla_pipe_command_t\<close> and the offset of its member \<^verbatim>\<open>status.status\<close>. The byte
  order of the host is a parameter as well.
\<close>

record proto =
  cc_sync :: byte
  cc_connect :: byte
  cc_unbind :: byte
  cc_quit :: byte
  cc_status :: byte
  cc_bind_ack :: byte
  vanilla_success :: u32
  vanilla_err_generic :: u32
  cmd_size :: nat
  status_off :: nat
  host :: endian

text \<open>The labels of a C \<^verbatim>\<open>switch\<close> are pairwise different.\<close>

definition case_labels_distinct :: "proto \<Rightarrow> bool" where
  "case_labels_distinct K =
     distinct [cc_sync K, cc_connect K, cc_unbind K, cc_quit K]"

text \<open>A control code that is one of the four labels of the \<^verbatim>\<open>switch\<close>.\<close>

definition is_command :: "proto \<Rightarrow> byte \<Rightarrow> bool" where
  "is_command K c = (c \<in> set [cc_sync K, cc_connect K, cc_unbind K, cc_quit K])"

text \<open>
  The struct starts with the control code, and the four bytes of \<^verbatim>\<open>status.status\<close> lie
  behind it, inside the struct.
\<close>

definition layout_ok :: "proto \<Rightarrow> bool" where
  "layout_ok K = (1 \<le> status_off K \<and> status_off K + 4 \<le> cmd_size K)"

text \<open>
  A concrete instance, on which the model is evaluated: \<^verbatim>\<open>SYNC\<close> is \<^verbatim>\<open>0x01\<close> as in
  the specification's scenario; the other values are sample values of a packed struct
  on a little-endian host.
\<close>

definition example_proto :: proto where
  "example_proto =
     \<lparr>cc_sync = 1, cc_connect = 2, cc_unbind = 3, cc_quit = 4, cc_status = 5,
      cc_bind_ack = 6, vanilla_success = 0, vanilla_err_generic = - 1,
      cmd_size = 8, status_off = 1, host = LittleEndian\<rparr>"

subsection \<open>Byte order\<close>

definition byte_of :: "nat \<Rightarrow> u32 \<Rightarrow> byte" where
  "byte_of k w = ucast (drop_bit (8 * k) w)"

definition le_bytes :: "u32 \<Rightarrow> byte list" where
  "le_bytes w = [byte_of 0 w, byte_of 1 w, byte_of 2 w, byte_of 3 w]"

definition be_bytes :: "u32 \<Rightarrow> byte list" where
  "be_bytes w = [byte_of 3 w, byte_of 2 w, byte_of 1 w, byte_of 0 w]"

text \<open>Reading four bytes as a big-endian number, the way a receiver decodes the field.\<close>

fun be_decode :: "byte list \<Rightarrow> u32" where
  "be_decode [a, b, c, d] =
     push_bit 24 (ucast a) OR push_bit 16 (ucast b) OR push_bit 8 (ucast c) OR ucast d"
| "be_decode _ = 0"

definition bswap32 :: "u32 \<Rightarrow> u32" where
  "bswap32 w =
     push_bit 24 (w AND 0xFF) OR push_bit 8 (w AND 0xFF00)
       OR (drop_bit 8 w AND 0xFF00) OR (drop_bit 24 w AND 0xFF)"

text \<open>\<^verbatim>\<open>htonl\<close>: the identity on a big-endian host, a byte swap on a little-endian one.\<close>

definition htonl :: "endian \<Rightarrow> u32 \<Rightarrow> u32" where
  "htonl h w = (case h of BigEndian \<Rightarrow> w | LittleEndian \<Rightarrow> bswap32 w)"

text \<open>The bytes a 32-bit object occupies in the memory of the host.\<close>

definition store32 :: "endian \<Rightarrow> u32 \<Rightarrow> byte list" where
  "store32 h w = (case h of BigEndian \<Rightarrow> be_bytes w | LittleEndian \<Rightarrow> le_bytes w)"

subsection \<open>Actions and inputs\<close>

type_synonym sockaddr = "byte list"

datatype transport = Local | Udp

datatype log_msg =
    MsgRootWarning
  | MsgUsage "string option"
  | MsgModeError
  | MsgSignal int
  | MsgInitWifi
  | MsgInitFailed
  | MsgReady
  | MsgListening
  | MsgBindLocalFailed
  | MsgBindUdpFailed
  | MsgReceived byte
  | MsgConnectRequest
  | MsgUnbindRequest
  | MsgQuitRequest
  | MsgUnknown byte
  | MsgShutdownComplete

text \<open>The functions declared in \<^verbatim>\<open>wifi.h\<close>, with the arguments that matter.\<close>

datatype wifi_call =
    WifiInit "string option"
  | WifiCleanup
  | WifiScanForWiiu
  | WifiAssociate string "byte list" "byte list"
  | WifiDisassociate
  | WifiIsConnected
  | WifiGetIpAddress
  | WifiConfigureNetwork string

datatype action =
    Log log_msg
  | Wifi wifi_call
  | InstallHandlers
  | Socket transport
  | Unlink
  | Bind transport
  | SetRcvTimeout
  | SendTo sockaddr "byte list"
  | Close

text \<open>
  What \<^verbatim>\<open>recvfrom\<close> delivers: a failure (time-out, interrupt, error: \<open>-1\<close>) or a
  datagram with the address of its sender. A datagram may be empty, and
  \<^verbatim>\<open>recvfrom\<close> cuts it to the size of the buffer.
\<close>

datatype recv_result = RecvFailed | Datagram sockaddr "byte list"

text \<open>
  One pass of the loop sees: the result of \<^verbatim>\<open>recvfrom\<close>; the value
  \<^verbatim>\<open>wifi_scan_for_wiiu\<close> returns if it is called; the bytes that lie on the stack where
  \<^verbatim>\<open>response\<close> is allocated (the struct is not initialised); and the signals delivered
  during the pass.
\<close>

record event =
  recv :: recv_result
  scan_result :: int
  resp_stack :: "byte list"
  signals :: "int list"

record startup_env =
  euid :: nat
  argv :: "string list"
  wifi_init_result :: int
  bind_result :: int
  startup_signals :: "int list"

subsection \<open>The responses\<close>

definition stack_buffer :: "nat \<Rightarrow> byte list \<Rightarrow> byte list" where
  "stack_buffer n junk = take n (junk @ replicate n 0)"

definition write_bytes :: "nat \<Rightarrow> byte list \<Rightarrow> byte list \<Rightarrow> byte list" where
  "write_bytes off bs buf = take off buf @ bs @ drop (off + length bs) buf"

text \<open>
  \<^verbatim>\<open>response.control_code = VANILLA_PIPE_CC_STATUS; response.status.status = htonl(code);\<close>
  and then all \<^verbatim>\<open>sizeof(response)\<close> bytes are sent.
\<close>

definition status_response :: "proto \<Rightarrow> byte list \<Rightarrow> u32 \<Rightarrow> byte list" where
  "status_response K junk code =
     take (cmd_size K)
       (write_bytes (status_off K) (store32 (host K) (htonl (host K) code))
          (write_bytes 0 [cc_status K] (stack_buffer (cmd_size K) junk)))"

subsection \<open>The body of the loop\<close>

text \<open>
  The \<^verbatim>\<open>switch\<close> on \<^verbatim>\<open>cmd.control_code\<close>, after the line that logs the code. It
  returns the new value of \<^verbatim>\<open>running\<close> and the actions. The payload of the command is
  an argument, as it is in the buffer, although no case reads it.
\<close>

definition dispatch ::
  "proto \<Rightarrow> int \<Rightarrow> sockaddr \<Rightarrow> byte \<Rightarrow> byte list \<Rightarrow> event \<Rightarrow> int \<times> action list"
where
  "dispatch K running client_addr control_code payload e =
     (if control_code = cc_sync K then
        let result = scan_result e;
            response =
              (if result = 0 then status_response K (resp_stack e) (vanilla_success K)
               else status_response K (resp_stack e) (vanilla_err_generic K))
        in (running,
            [Log (MsgReceived control_code), Wifi WifiScanForWiiu,
             SendTo client_addr response])
      else if control_code = cc_connect K then
        (running,
         [Log (MsgReceived control_code), Log MsgConnectRequest,
          SendTo client_addr [cc_bind_ack K]])
      else if control_code = cc_unbind K then
        (running,
         [Log (MsgReceived control_code), Log MsgUnbindRequest, Wifi WifiDisassociate])
      else if control_code = cc_quit K then
        (0, [Log (MsgReceived control_code), Log MsgQuitRequest])
      else
        (running, [Log (MsgReceived control_code), Log (MsgUnknown control_code)]))"

text \<open>The value of \<^verbatim>\<open>recv_len\<close>.\<close>

definition recv_len :: "proto \<Rightarrow> recv_result \<Rightarrow> int" where
  "recv_len K r =
     (case r of RecvFailed \<Rightarrow> - 1
      | Datagram a bs \<Rightarrow> int (min (length bs) (cmd_size K)))"

text \<open>
  The body of the loop without the signals: \<^verbatim>\<open>recvfrom\<close>, the test
  \<^verbatim>\<open>recv_len <= 0\<close>, and the \<^verbatim>\<open>switch\<close>. The control code is the first byte of the
  buffer, which \<^verbatim>\<open>recvfrom\<close> has written whenever \<^verbatim>\<open>recv_len\<close> is positive.
\<close>

definition loop_body :: "proto \<Rightarrow> int \<Rightarrow> event \<Rightarrow> int \<times> action list" where
  "loop_body K running e =
     (if recv_len K (recv e) \<le> 0 then (running, [])
      else
        (case recv e of
           RecvFailed \<Rightarrow> (running, [])
         | Datagram client_addr bs \<Rightarrow>
             (case take (cmd_size K) bs of
                [] \<Rightarrow> (running, [])
              | control_code # payload \<Rightarrow>
                  dispatch K running client_addr control_code payload e)))"

text \<open>
  \<^verbatim>\<open>signal_handler\<close> logs and clears \<^verbatim>\<open>running\<close>. The flag is read only by the test
  of the loop, so a signal delivered anywhere in a pass has the effect of one delivered
  at its end; the log line of the handler is recorded there.
\<close>

definition deliver :: "int list \<Rightarrow> int \<Rightarrow> int \<times> action list" where
  "deliver sigs running =
     (if sigs = [] then running else 0, map (\<lambda>s. Log (MsgSignal s)) sigs)"

definition iteration :: "proto \<Rightarrow> int \<Rightarrow> event \<Rightarrow> int \<times> action list" where
  "iteration K running e =
     (case loop_body K running e of
        (r, t) \<Rightarrow> (case deliver (signals e) r of (r', ts) \<Rightarrow> (r', t @ ts)))"

text \<open>
  \<^verbatim>\<open>while (running) { ... }\<close> over the passes the environment provides. The result is
  the trace of the loop when it is left, and \<open>None\<close> when the passes run out while
  \<^verbatim>\<open>running\<close> is still set: the program has not returned.
\<close>

fun event_loop :: "proto \<Rightarrow> int \<Rightarrow> event list \<Rightarrow> action list option" where
  "event_loop K running [] = (if running \<noteq> 0 then None else Some [])"
| "event_loop K running (e # es) =
     (if running \<noteq> 0 then
        (case iteration K running e of
           (running', t) \<Rightarrow> map_option ((@) t) (event_loop K running' es))
      else Some [])"

subsection \<open>Start-up and \<^verbatim>\<open>main\<close>\<close>

datatype parse_result = Help | Parsed int int "string option"

text \<open>The loop over \<^verbatim>\<open>argv[1] .. argv[argc - 1]\<close>.\<close>

fun parse_args :: "string list \<Rightarrow> int \<Rightarrow> int \<Rightarrow> string option \<Rightarrow> parse_result" where
  "parse_args [] udp_mode local_mode wireless_interface =
     Parsed udp_mode local_mode wireless_interface"
| "parse_args (a # as) udp_mode local_mode wireless_interface =
     (if a = ''-udp'' then parse_args as 1 local_mode wireless_interface
      else if a = ''-local'' then parse_args as udp_mode 1 wireless_interface
      else if a = ''-h'' \<or> a = ''--help'' then Help
      else parse_args as udp_mode local_mode (Some a))"

definition prog_name :: "string list \<Rightarrow> string option" where
  "prog_name args = (case args of [] \<Rightarrow> None | p # _ \<Rightarrow> Some p)"

datatype startup_result = Exit "action list" int | Listening "action list" int

text \<open>
  \<^verbatim>\<open>main\<close> up to the loop: either the process returns with an exit code, or the socket
  is bound and the loop is entered with the current value of \<^verbatim>\<open>running\<close>. Signals that
  arrive after the handlers are installed and before the first test of the loop are
  recorded at the end of the start-up. On the paths that return before the loop the flag
  is never read, and signals are left out there.
\<close>

definition startup :: "startup_env \<Rightarrow> startup_result" where
  "startup S =
     (let t0 = (if euid S \<noteq> 0 then [Log MsgRootWarning] else []) in
      if int (length (argv S)) < 2 then
        Exit (t0 @ [Log (MsgUsage (prog_name (argv S)))]) 1
      else
        (case parse_args (tl (argv S)) 0 0 None of
           Help \<Rightarrow> Exit (t0 @ [Log (MsgUsage (prog_name (argv S)))]) 0
         | Parsed udp_mode local_mode wireless_interface \<Rightarrow>
             if udp_mode = local_mode then Exit (t0 @ [Log MsgModeError]) 1
             else
               let t1 = t0 @ [InstallHandlers, Log MsgInitWifi,
                              Wifi (WifiInit wireless_interface)] in
               if wifi_init_result S \<noteq> 0 then Exit (t1 @ [Log MsgInitFailed]) 1
               else
                 let t2 = t1 @ [Log MsgReady, Log MsgListening] in
                 if local_mode \<noteq> 0 then
                   (if bind_result S < 0 then
                      Exit (t2 @ [Socket Local, Unlink, Bind Local,
                                  Log MsgBindLocalFailed, Wifi WifiCleanup]) 1
                    else
                      (case deliver (startup_signals S) 1 of
                         (r, ts) \<Rightarrow>
                           Listening (t2 @ [Socket Local, Unlink, Bind Local,
                                            SetRcvTimeout] @ ts) r))
                 else
                   (if bind_result S < 0 then
                      Exit (t2 @ [Socket Udp, Bind Udp,
                                  Log MsgBindUdpFailed, Wifi WifiCleanup]) 1
                    else
                      (case deliver (startup_signals S) 1 of
                         (r, ts) \<Rightarrow>
                           Listening (t2 @ [Socket Udp, Bind Udp,
                                            SetRcvTimeout] @ ts) r))))"

text \<open>
  The whole of \<^verbatim>\<open>main\<close>: its trace and its exit code, or \<open>None\<close> when the loop is
  still running at the end of the events.
\<close>

definition cleanup :: "action list" where
  "cleanup = [Close, Wifi WifiCleanup, Log MsgShutdownComplete]"

definition main :: "proto \<Rightarrow> startup_env \<Rightarrow> event list \<Rightarrow> (action list \<times> int) option" where
  "main K S evs =
     (case startup S of
        Exit t code \<Rightarrow> Some (t, code)
      | Listening t running \<Rightarrow>
          (case event_loop K running evs of
             None \<Rightarrow> None
           | Some tloop \<Rightarrow> Some (t @ tloop @ cleanup, 0)))"

subsection \<open>Observations on a trace\<close>

fun sends :: "action list \<Rightarrow> (sockaddr \<times> byte list) list" where
  "sends [] = []"
| "sends (SendTo a bs # t) = (a, bs) # sends t"
| "sends (_ # t) = sends t"

fun wifi_calls :: "action list \<Rightarrow> wifi_call list" where
  "wifi_calls [] = []"
| "wifi_calls (Wifi c # t) = c # wifi_calls t"
| "wifi_calls (_ # t) = wifi_calls t"

fun is_associate :: "wifi_call \<Rightarrow> bool" where
  "is_associate (WifiAssociate s b p) = True"
| "is_associate _ = False"

subsection \<open>Shutdown triggers\<close>

text \<open>
  The control code of a received frame: the first byte of a datagram that is not empty.
\<close>

definition frame_code :: "event \<Rightarrow> byte option" where
  "frame_code e =
     (case recv e of RecvFailed \<Rightarrow> None
      | Datagram a bs \<Rightarrow> (case bs of [] \<Rightarrow> None | c # p \<Rightarrow> Some c))"

text \<open>
  The two triggers of a shutdown: a frame with the control code \<^verbatim>\<open>QUIT\<close>, and a
  signal.
\<close>

definition shutdown_trigger :: "proto \<Rightarrow> event \<Rightarrow> bool" where
  "shutdown_trigger K e = (frame_code e = Some (cc_quit K) \<or> signals e \<noteq> [])"

subsection \<open>The session states of the specification\<close>

text \<open>
  The specification speaks of a session state with five values. The source keeps no
  such variable: the only state that outlives a pass of the loop is \<^verbatim>\<open>running\<close>.
  \<open>spec_session\<close> follows the specification's words as far as the program can tell
  its states apart: the process starts in \<open>Idle\<close> with \<^verbatim>\<open>running = 1\<close>, and
  \<open>ShuttingDown\<close>, the terminal state, is the cleared flag.
\<close>

datatype session = Idle | Syncing | Connecting | Bound | ShuttingDown

definition spec_session :: "int \<Rightarrow> session" where
  "spec_session running = (if running \<noteq> 0 then Idle else ShuttingDown)"

subsection \<open>Inputs for evaluation\<close>

definition frame_event :: "sockaddr \<Rightarrow> byte list \<Rightarrow> event" where
  "frame_event a bs = \<lparr>recv = Datagram a bs, scan_result = 0, resp_stack = [], signals = []\<rparr>"

definition example_startup :: startup_env where
  "example_startup =
     \<lparr>euid = 0, argv = [''vanilla-pipe'', ''-local''], wifi_init_result = 0,
      bind_result = 0, startup_signals = []\<rparr>"

definition signal_event :: "int \<Rightarrow> event" where
  "signal_event s = \<lparr>recv = RecvFailed, scan_result = 0, resp_stack = [], signals = [s]\<rparr>"

definition startup_with :: "string list \<Rightarrow> int \<Rightarrow> int \<Rightarrow> startup_env" where
  "startup_with args init bound =
     \<lparr>euid = 0, argv = args, wifi_init_result = init, bind_result = bound,
      startup_signals = []\<rparr>"

subsection \<open>Arguments, exit status, actions of the loop\<close>

text \<open>The actions a pass of the loop can take, signal handler included.\<close>

fun loop_action :: "action \<Rightarrow> bool" where
  "loop_action (Log m) = True"
| "loop_action (Wifi WifiScanForWiiu) = True"
| "loop_action (Wifi WifiDisassociate) = True"
| "loop_action (SendTo a bs) = True"
| "loop_action _ = False"

text \<open>What the arguments \<^verbatim>\<open>argv[1] ..\<close> ask for.\<close>

definition help_requested :: "string list \<Rightarrow> bool" where
  "help_requested args = (''-h'' \<in> set (tl args) \<or> ''--help'' \<in> set (tl args))"

definition udp_selected :: "string list \<Rightarrow> bool" where
  "udp_selected args = (''-udp'' \<in> set (tl args))"

definition local_selected :: "string list \<Rightarrow> bool" where
  "local_selected args = (''-local'' \<in> set (tl args))"

text \<open>The exit status of the process, when it returns.\<close>

definition exit_code :: "proto \<Rightarrow> startup_env \<Rightarrow> event list \<Rightarrow> int option" where
  "exit_code K S evs = map_option snd (main K S evs)"

section \<open>Auxiliary facts\<close>

subsection \<open>Byte order and the status frame\<close>

lemma m255: "(255::u32) = mask 8"
  by (simp add: mask_eq_exp_minus_1)

lemma m65280: "(65280::u32) = push_bit 8 (mask 8)"
  by (simp add: mask_eq_exp_minus_1 push_bit_eq_mult)

lemma byte_of_bswap32:
  "byte_of 0 (bswap32 w) = byte_of 3 w"
  "byte_of 1 (bswap32 w) = byte_of 2 w"
  "byte_of 2 (bswap32 w) = byte_of 1 w"
  "byte_of 3 (bswap32 w) = byte_of 0 w"
  unfolding byte_of_def bswap32_def m255 m65280
  by (rule bit_word_eqI, simp add: bit_simps)+

lemma store32_htonl: "store32 h (htonl h w) = be_bytes w"
  by (cases h)
    (simp_all add: store32_def htonl_def le_bytes_def be_bytes_def byte_of_bswap32
      del: One_nat_def)

lemma be_decode_be_bytes: "be_decode (be_bytes w) = w"
proof (rule bit_word_eqI)
  fix n :: nat
  assume n: "n < LENGTH(32)"
  consider "n < 8" | "8 \<le> n" "n < 16" | "16 \<le> n" "n < 24" | "24 \<le> n"
    by linarith
  then show "bit (be_decode (be_bytes w)) n = bit w n"
    using n by cases (auto simp add: be_bytes_def byte_of_def bit_simps)
qed

lemma length_stack_buffer: "length (stack_buffer n junk) = n"
  by (simp add: stack_buffer_def)

lemma length_be_bytes: "length (be_bytes w) = 4"
  by (simp add: be_bytes_def)

lemma drop_Cons_drop1: "0 < n \<Longrightarrow> drop n (c # drop 1 b) = drop n b"
  by (cases n) simp_all

lemma status_response_eq:
  assumes "layout_ok K"
  shows "status_response K junk code =
           cc_status K # take (status_off K - 1) (drop 1 (stack_buffer (cmd_size K) junk))
             @ be_bytes code @ drop (status_off K + 4) (stack_buffer (cmd_size K) junk)"
proof -
  let ?b = "stack_buffer (cmd_size K) junk"
  from assms have off: "1 \<le> status_off K" "status_off K + 4 \<le> cmd_size K"
    by (simp_all add: layout_ok_def)
  have len: "length ?b = cmd_size K" by (rule length_stack_buffer)
  have w0: "write_bytes 0 [cc_status K] ?b = cc_status K # drop 1 ?b"
    by (simp add: write_bytes_def)
  obtain m where m: "status_off K = Suc m" using off(1) by (cases "status_off K") auto
  have d: "drop (Suc m + 4) (cc_status K # drop 1 ?b) = drop (Suc m + 4) ?b"
    by (rule drop_Cons_drop1) simp
  have "write_bytes (status_off K) (be_bytes code) (cc_status K # drop 1 ?b)
          = cc_status K # take m (drop 1 ?b) @ be_bytes code @ drop (status_off K + 4) ?b"
    unfolding write_bytes_def m length_be_bytes d by simp
  moreover have "length (cc_status K # take m (drop 1 ?b) @ be_bytes code @ drop (status_off K + 4) ?b)
          = cmd_size K"
    using off len by (simp add: m length_be_bytes)
  ultimately show ?thesis
    by (simp add: status_response_def store32_htonl w0 m)
qed

lemma status_response_length: "layout_ok K \<Longrightarrow> length (status_response K junk code) = cmd_size K"
  by (auto simp add: status_response_eq length_be_bytes length_stack_buffer layout_ok_def min_def)

lemma status_response_code: "layout_ok K \<Longrightarrow> status_response K junk code ! 0 = cc_status K"
  by (simp add: status_response_eq)

lemma status_response_field:
  "layout_ok K \<Longrightarrow> take 4 (drop (status_off K) (status_response K junk code)) = be_bytes code"
proof -
  assume ok: "layout_ok K"
  then obtain m where m: "status_off K = Suc m" 
    by (cases "status_off K") (auto simp: layout_ok_def)
  have "length (take m (drop 1 (stack_buffer (cmd_size K) junk))) = m"
    using ok by (simp add: length_stack_buffer layout_ok_def m)
  then show ?thesis
    by (simp add: status_response_eq [OF ok] m length_be_bytes)
qed

subsection \<open>The loop\<close>

lemma loop_body_datagram:
  "1 \<le> cmd_size K \<Longrightarrow> recv e = Datagram a (c # p) \<Longrightarrow>
     loop_body K r e = dispatch K r a c (take (cmd_size K - 1) p) e"
  by (cases "cmd_size K") (simp_all add: loop_body_def recv_len_def)

lemma loop_body_skip:
  "recv_len K (recv e) \<le> 0 \<Longrightarrow> loop_body K r e = (r, [])"
  by (simp add: loop_body_def)

lemma dispatch_sync:
  "dispatch K r a (cc_sync K) p e =
     (r, [Log (MsgReceived (cc_sync K)), Wifi WifiScanForWiiu,
          SendTo a (status_response K (resp_stack e)
            (if scan_result e = 0 then vanilla_success K else vanilla_err_generic K))])"
  by (simp add: dispatch_def)

lemma dispatch_connect:
  "case_labels_distinct K \<Longrightarrow> dispatch K r a (cc_connect K) p e =
     (r, [Log (MsgReceived (cc_connect K)), Log MsgConnectRequest, SendTo a [cc_bind_ack K]])"
  by (auto simp add: dispatch_def case_labels_distinct_def)

lemma dispatch_unbind:
  "case_labels_distinct K \<Longrightarrow> dispatch K r a (cc_unbind K) p e =
     (r, [Log (MsgReceived (cc_unbind K)), Log MsgUnbindRequest, Wifi WifiDisassociate])"
  by (auto simp add: dispatch_def case_labels_distinct_def)

lemma dispatch_quit:
  "case_labels_distinct K \<Longrightarrow> dispatch K r a (cc_quit K) p e =
     (0, [Log (MsgReceived (cc_quit K)), Log MsgQuitRequest])"
  by (auto simp add: dispatch_def case_labels_distinct_def)

lemma dispatch_unknown:
  "\<not> is_command K c \<Longrightarrow> dispatch K r a c p e =
     (r, [Log (MsgReceived c), Log (MsgUnknown c)])"
  by (auto simp add: dispatch_def is_command_def)

lemma dispatch_zero:
  "r \<noteq> 0 \<Longrightarrow> fst (dispatch K r a c p e) = 0 \<Longrightarrow> c = cc_quit K"
  by (simp add: dispatch_def Let_def split: if_splits)

lemma loop_body_running:
  "loop_body K r e = (if fst (loop_body K 1 e) = 0 then 0 else r, snd (loop_body K 1 e))"
  unfolding loop_body_def
  by (simp split: recv_result.splits list.splits add: dispatch_def Let_def)

lemma loop_body_zero:
  "r \<noteq> 0 \<Longrightarrow> fst (loop_body K r e) = 0 \<Longrightarrow> frame_code e = Some (cc_quit K)"
  unfolding loop_body_def frame_code_def
  by (cases "cmd_size K")
    (auto split: recv_result.splits list.splits if_splits dest: dispatch_zero)

lemma iteration_running:
  "iteration K r e = (if fst (iteration K 1 e) = 0 then 0 else r, snd (iteration K 1 e))"
  unfolding iteration_def deliver_def
  by (subst loop_body_running) (simp split: prod.splits)

lemma iteration_zero:
  "r \<noteq> 0 \<Longrightarrow> fst (iteration K r e) = 0 \<Longrightarrow> shutdown_trigger K e"
  unfolding iteration_def deliver_def shutdown_trigger_def
  by (auto split: prod.splits if_splits dest: loop_body_zero [where K = K and e = e and r = r])

lemma iteration_trigger:
  assumes "case_labels_distinct K" "1 \<le> cmd_size K" "shutdown_trigger K e"
  shows "fst (iteration K r e) = 0"
proof (cases "signals e = []")
  case False
  then show ?thesis by (simp add: iteration_def deliver_def split: prod.splits)
next
  case True
  with assms(3) obtain a p where "recv e = Datagram a (cc_quit K # p)"
    by (auto simp: shutdown_trigger_def frame_code_def split: recv_result.splits list.splits)
  then show ?thesis
    using assms(1,2) True
    by (simp add: iteration_def deliver_def loop_body_datagram dispatch_quit)
qed

lemma event_loop_stopped: "event_loop K 0 es = Some []"
  by (cases es) simp_all

lemma event_loop_step:
  "r \<noteq> 0 \<Longrightarrow> event_loop K r (e # es) =
     map_option ((@) (snd (iteration K r e))) (event_loop K (fst (iteration K r e)) es)"
  by (simp split: prod.splits)

lemma event_loop_continue:
  assumes "r \<noteq> 0" "\<not> shutdown_trigger K e"
  shows "event_loop K r (e # es) = map_option ((@) (snd (iteration K r e))) (event_loop K r es)"
proof -
  have "fst (iteration K r e) \<noteq> 0" using assms iteration_zero by blast
  then have "fst (iteration K r e) = r"
    by (subst (asm) iteration_running, subst iteration_running) (simp split: if_splits)
  then show ?thesis using assms(1) by (simp add: event_loop_step del: event_loop.simps)
qed

lemma event_loop_exit:
  assumes "case_labels_distinct K" "1 \<le> cmd_size K" "r \<noteq> 0" "shutdown_trigger K e"
  shows "event_loop K r (e # es) = Some (snd (iteration K r e))"
  using assms
  by (simp add: event_loop_step iteration_trigger event_loop_stopped del: event_loop.simps)

lemma event_loop_prefix:
  assumes "case_labels_distinct K" "1 \<le> cmd_size K" "r \<noteq> 0" "shutdown_trigger K e"
    "\<forall>x \<in> set pre. \<not> shutdown_trigger K x"
  shows "event_loop K r (pre @ e # rest) =
           Some (concat (map (\<lambda>x. snd (iteration K r x)) pre) @ snd (iteration K r e))"
  using assms(5)
proof (induction pre)
  case Nil
  show ?case using assms(1-4) by (simp add: event_loop_exit del: event_loop.simps)
next
  case (Cons x pre)
  then show ?case using assms(3) by (simp add: event_loop_continue del: event_loop.simps)
qed

lemma event_loop_Some_trigger:
  "r \<noteq> 0 \<Longrightarrow> event_loop K r es = Some t \<Longrightarrow> \<exists>e \<in> set es. shutdown_trigger K e"
proof (induction es arbitrary: t)
  case Nil
  then show ?case by simp
next
  case (Cons e es)
  show ?case
  proof (cases "shutdown_trigger K e")
    case True
    then show ?thesis by simp
  next
    case False
    with Cons.prems obtain t' where "event_loop K r es = Some t'"
      by (auto simp add: event_loop_continue simp del: event_loop.simps)
    with Cons.IH Cons.prems(1) show ?thesis by auto
  qed
qed

lemma event_loop_no_trigger:
  "r \<noteq> 0 \<Longrightarrow> \<forall>e \<in> set es. \<not> shutdown_trigger K e \<Longrightarrow> event_loop K r es = None"
  using event_loop_Some_trigger by (cases "event_loop K r es") blast+

lemma iteration_no_signal: "signals e = [] \<Longrightarrow> iteration K r e = loop_body K r e"
  by (simp add: iteration_def deliver_def split: prod.splits)

lemma event_loop_same_state:
  assumes "r \<noteq> 0" "signals e = []" "loop_body K r e = (r, t)"
  shows "event_loop K r (e # es) = map_option ((@) t) (event_loop K r es)"
  using assms by (simp add: event_loop_step iteration_no_signal del: event_loop.simps)

text \<open>
  The loop reads \<^verbatim>\<open>running\<close> only to compare it with 0: from any state with the flag
  set it behaves as from the initial state.
\<close>

lemma iteration_fst:
  "fst (iteration K r e) = (if fst (iteration K 1 e) = 0 then 0 else r)"
  by (subst iteration_running [of K r e]) (simp only: fst_conv)

lemma iteration_snd: "snd (iteration K r e) = snd (iteration K 1 e)"
  by (subst iteration_running [of K r e]) (simp only: snd_conv)

lemma event_loop_running:
  "r \<noteq> 0 \<Longrightarrow> event_loop K r es = event_loop K 1 es"
proof (induction es arbitrary: r)
  case Nil
  then show ?case by simp
next
  case (Cons e es)
  have step: "event_loop K q (e # es) =
      map_option ((@) (snd (iteration K 1 e)))
        (event_loop K (if fst (iteration K 1 e) = 0 then 0 else q) es)"
    if "q \<noteq> 0" for q
    by (simp only: event_loop_step [OF that] iteration_fst [of K q e] iteration_snd [of K q e])
  show ?case
  proof (cases "fst (iteration K 1 e) = 0")
    case True
    then show ?thesis
      using step [OF Cons.prems] step [of 1] by simp
  next
    case False
    then show ?thesis
      using step [OF Cons.prems] step [of 1] Cons.IH [OF Cons.prems] by simp
  qed
qed

subsection \<open>No state of the program stands for \<open>Connecting\<close>\<close>

text \<open>
  Whatever function of the program's state is taken for the session state: if it gives
  \<open>Idle\<close> at the start, where \<^verbatim>\<open>running = 1\<close>, it cannot give \<open>Connecting\<close> after
  every \<^verbatim>\<open>CONNECT\<close>, because a \<^verbatim>\<open>CONNECT\<close> leaves the state as it was.
\<close>

lemma connect_no_session_abstraction:
  "\<not> (\<exists>\<alpha> :: int \<Rightarrow> session. \<alpha> 1 = Idle \<and>
        (\<forall>K r e a p. case_labels_distinct K \<and> 1 \<le> cmd_size K \<and>
            recv e = Datagram a (cc_connect K # p) \<longrightarrow>
          \<alpha> (fst (loop_body K r e)) = Connecting))"
proof
  assume "\<exists>\<alpha> :: int \<Rightarrow> session. \<alpha> 1 = Idle \<and>
        (\<forall>K r e a p. case_labels_distinct K \<and> 1 \<le> cmd_size K \<and>
            recv e = Datagram a (cc_connect K # p) \<longrightarrow>
          \<alpha> (fst (loop_body K r e)) = Connecting)"
  then obtain \<alpha> :: "int \<Rightarrow> session" where idle: "\<alpha> 1 = Idle"
    and conn: "\<And>K r e a p. case_labels_distinct K \<Longrightarrow> 1 \<le> cmd_size K \<Longrightarrow>
            recv e = Datagram a (cc_connect K # p) \<Longrightarrow>
          \<alpha> (fst (loop_body K r e)) = Connecting"
    by blast
  have "case_labels_distinct example_proto" "1 \<le> cmd_size example_proto"
    "recv (frame_event [9] [2]) = Datagram [9] (cc_connect example_proto # [])"
    by code_simp+
  from conn [OF this, of 1] have "\<alpha> (fst (loop_body example_proto 1 (frame_event [9] [2]))) = Connecting" .
  moreover have "fst (loop_body example_proto 1 (frame_event [9] [2])) = 1"
    by code_simp
  ultimately show False using idle by simp
qed

subsection \<open>Traces of the loop and of the start-up\<close>

lemma wifi_calls_append: "wifi_calls (t @ u) = wifi_calls t @ wifi_calls u"
  by (induction t rule: wifi_calls.induct) simp_all

lemma loop_action_no_associate:
  "\<forall>x \<in> set t. loop_action x \<Longrightarrow> \<not> list_ex is_associate (wifi_calls t)"
proof (induction t rule: wifi_calls.induct)
  case (2 c t)
  then show ?case by (cases c) simp_all
qed simp_all

lemma dispatch_loop_action: "\<forall>x \<in> set (snd (dispatch K r a c p e)). loop_action x"
  by (simp add: dispatch_def Let_def)

lemma loop_body_loop_action: "\<forall>x \<in> set (snd (loop_body K r e)). loop_action x"
  unfolding loop_body_def
  by (simp split: recv_result.splits list.splits add: dispatch_loop_action)

lemma iteration_loop_action: "\<forall>x \<in> set (snd (iteration K r e)). loop_action x"
  using loop_body_loop_action [of K r e]
  by (auto simp add: iteration_def deliver_def split: prod.splits)

lemma event_loop_loop_action:
  "event_loop K r es = Some t \<Longrightarrow> \<forall>x \<in> set t. loop_action x"
proof (induction es arbitrary: r t)
  case Nil
  then show ?case by (simp split: if_splits)
next
  case (Cons e es)
  show ?case
  proof (cases "r = 0")
    case True
    with Cons.prems show ?thesis by simp
  next
    case False
    with Cons.prems obtain t' where t': "event_loop K (fst (iteration K r e)) es = Some t'"
      and t: "t = snd (iteration K r e) @ t'"
      by (auto simp add: event_loop_step simp del: event_loop.simps)
    from Cons.IH [OF t'] iteration_loop_action [of K r e] show ?thesis
      by (auto simp add: t)
  qed
qed

lemma parse_args_help:
  "''-h'' \<in> set as \<or> ''--help'' \<in> set as \<Longrightarrow> parse_args as u l w = Help"
proof (induction as arbitrary: u l w)
  case Nil
  then show ?case by simp
next
  case (Cons a as)
  show ?case
  proof (cases "a = ''-h'' \<or> a = ''--help''")
    case True
    then show ?thesis by fastforce
  next
    case False
    with Cons.prems have "''-h'' \<in> set as \<or> ''--help'' \<in> set as" by fastforce
    then have "parse_args as u' l' w' = Help" for u' l' w' by (rule Cons.IH)
    then show ?thesis by simp
  qed
qed

lemma parse_args_modes:
  "''-h'' \<notin> set as \<Longrightarrow> ''--help'' \<notin> set as \<Longrightarrow>
     \<exists>w'. parse_args as u l w =
       Parsed (if ''-udp'' \<in> set as then 1 else u) (if ''-local'' \<in> set as then 1 else l) w'"
proof (induction as arbitrary: u l w)
  case Nil
  then show ?case by simp
next
  case (Cons a as)
  from Cons.prems have nh: "a \<noteq> ''-h''" "a \<noteq> ''--help''"
    and rest: "''-h'' \<notin> set as" "''--help'' \<notin> set as"
    by fastforce+
  note IH = Cons.IH [OF rest]
  consider "a = ''-udp''" | "a = ''-local''" | "a \<noteq> ''-udp''" "a \<noteq> ''-local''"
    by blast
  then show ?case
  proof cases
    case 1
    from IH [of 1 l w] obtain w' where
      "parse_args as 1 l w = Parsed (if ''-udp'' \<in> set as then 1 else 1)
         (if ''-local'' \<in> set as then 1 else l) w'" by blast
    with 1 show ?thesis by simp
  next
    case 2
    from IH [of u 1 w] obtain w' where
      "parse_args as u 1 w = Parsed (if ''-udp'' \<in> set as then 1 else u)
         (if ''-local'' \<in> set as then 1 else 1) w'" by blast
    with 2 show ?thesis by simp
  next
    case 3
    from IH [of u l "Some a"] obtain w' where
      "parse_args as u l (Some a) = Parsed (if ''-udp'' \<in> set as then 1 else u)
         (if ''-local'' \<in> set as then 1 else l) w'" by blast
    with 3 nh show ?thesis by simp
  qed
qed

lemma startup_help:
  "help_requested (argv S) \<Longrightarrow> \<exists>t. startup S = Exit t 0"
proof -
  assume h: "help_requested (argv S)"
  then have "tl (argv S) \<noteq> []" by (auto simp: help_requested_def)
  then have len: "\<not> int (length (argv S)) < 2" by (cases "argv S") auto
  from h have "parse_args (tl (argv S)) 0 0 None = Help"
    by (simp add: help_requested_def parse_args_help)
  with len show ?thesis by (simp add: startup_def Let_def)
qed

lemma startup_few_args:
  "length (argv S) < 2 \<Longrightarrow> \<exists>t. startup S = Exit t 1"
  by (simp add: startup_def Let_def)

lemma startup_parsed:
  assumes "\<not> help_requested (argv S)" "2 \<le> length (argv S)"
  obtains w where "parse_args (tl (argv S)) 0 0 None =
    Parsed (if udp_selected (argv S) then 1 else 0) (if local_selected (argv S) then 1 else 0) w"
  using assms parse_args_modes [of "tl (argv S)" 0 0 None]
  by (auto simp: help_requested_def udp_selected_def local_selected_def)

lemma startup_bad_modes:
  assumes "\<not> help_requested (argv S)" "udp_selected (argv S) = local_selected (argv S)"
  shows "\<exists>t. startup S = Exit t 1"
proof (cases "length (argv S) < 2")
  case True
  then show ?thesis by (rule startup_few_args)
next
  case False
  then have len: "2 \<le> length (argv S)" by simp
  from startup_parsed [OF assms(1) len] obtain w where
    "parse_args (tl (argv S)) 0 0 None =
      Parsed (if udp_selected (argv S) then 1 else 0) (if local_selected (argv S) then 1 else 0) w"
    by blast
  with False assms(2) show ?thesis by (simp add: startup_def Let_def)
qed

lemma modes_length:
  "udp_selected args \<noteq> local_selected args \<Longrightarrow> 2 \<le> length args"
  by (cases args; cases "tl args") (auto simp: udp_selected_def local_selected_def)

lemma startup_init_failed:
  assumes "\<not> help_requested (argv S)" "udp_selected (argv S) \<noteq> local_selected (argv S)"
    "wifi_init_result S \<noteq> 0"
  shows "\<exists>t. startup S = Exit t 1"
proof -
  from modes_length [OF assms(2)] have len: "2 \<le> length (argv S)" .
  from startup_parsed [OF assms(1) len] obtain w where
    "parse_args (tl (argv S)) 0 0 None =
      Parsed (if udp_selected (argv S) then 1 else 0) (if local_selected (argv S) then 1 else 0) w"
    by blast
  with len assms(2,3) show ?thesis by (auto simp add: startup_def Let_def)
qed

lemma startup_bind_failed:
  assumes "\<not> help_requested (argv S)" "udp_selected (argv S) \<noteq> local_selected (argv S)"
    "wifi_init_result S = 0" "bind_result S < 0"
  shows "\<exists>t w. startup S = Exit (t @ [Wifi WifiCleanup]) 1
           \<and> wifi_calls t = [WifiInit w] \<and> Close \<notin> set t"
proof -
  from modes_length [OF assms(2)] have len: "2 \<le> length (argv S)" .
  from startup_parsed [OF assms(1) len] obtain w where
    p: "parse_args (tl (argv S)) 0 0 None =
      Parsed (if udp_selected (argv S) then 1 else 0) (if local_selected (argv S) then 1 else 0) w"
    by blast
  let ?t0 = "(if euid S \<noteq> 0 then [Log MsgRootWarning] else [])
      @ [InstallHandlers, Log MsgInitWifi, Wifi (WifiInit w), Log MsgReady, Log MsgListening]"
  show ?thesis
  proof (cases "local_selected (argv S)")
    case True
    with p len assms(2-4) have
      "startup S = Exit ((?t0 @ [Socket Local, Unlink, Bind Local, Log MsgBindLocalFailed])
         @ [Wifi WifiCleanup]) 1"
      by (simp add: startup_def Let_def)
    moreover have "wifi_calls (?t0 @ [Socket Local, Unlink, Bind Local, Log MsgBindLocalFailed])
        = [WifiInit w]"
      by simp
    moreover have "Close \<notin> set (?t0 @ [Socket Local, Unlink, Bind Local, Log MsgBindLocalFailed])"
      by simp
    ultimately show ?thesis by blast
  next
    case False
    with p len assms(2-4) have
      "startup S = Exit ((?t0 @ [Socket Udp, Bind Udp, Log MsgBindUdpFailed])
         @ [Wifi WifiCleanup]) 1"
      by (simp add: startup_def Let_def)
    moreover have "wifi_calls (?t0 @ [Socket Udp, Bind Udp, Log MsgBindUdpFailed])
        = [WifiInit w]"
      by simp
    moreover have "Close \<notin> set (?t0 @ [Socket Udp, Bind Udp, Log MsgBindUdpFailed])"
      by simp
    ultimately show ?thesis by blast
  qed
qed

lemma wifi_calls_signal_logs: "wifi_calls (map (\<lambda>s. Log (MsgSignal s)) sigs) = []"
  by (induction sigs) simp_all

lemma startup_listening:
  assumes "\<not> help_requested (argv S)" "udp_selected (argv S) \<noteq> local_selected (argv S)"
    "wifi_init_result S = 0" "0 \<le> bind_result S"
  shows "\<exists>t. startup S = Listening t (if startup_signals S = [] then 1 else 0)"
proof -
  from modes_length [OF assms(2)] have len: "2 \<le> length (argv S)" .
  from startup_parsed [OF assms(1) len] obtain w where
    "parse_args (tl (argv S)) 0 0 None =
      Parsed (if udp_selected (argv S) then 1 else 0) (if local_selected (argv S) then 1 else 0) w"
    by blast
  with len assms(2-4) show ?thesis
    by (auto simp add: startup_def Let_def deliver_def)
qed

lemma startup_Listening_trace:
  assumes "startup S = Listening t r"
  shows "Close \<notin> set t \<and> Wifi WifiCleanup \<notin> set t
         \<and> r = (if startup_signals S = [] then 1 else 0)
         \<and> (\<exists>w. wifi_calls t = [WifiInit w])"
  using assms unfolding startup_def Let_def deliver_def
  by (auto split: if_splits parse_result.splits
      simp add: wifi_calls_append wifi_calls_signal_logs)

lemma startup_no_associate:
  "startup S = Exit t c \<or> startup S = Listening t r \<Longrightarrow>
     \<not> list_ex is_associate (wifi_calls t)"
  unfolding startup_def Let_def deliver_def
  by (auto split: if_splits parse_result.splits
      simp add: wifi_calls_append wifi_calls_signal_logs)

subsection \<open>The whole of \<^verbatim>\<open>main\<close>\<close>

lemma main_Listening:
  "startup S = Listening t0 r0 \<Longrightarrow>
     main K S evs = map_option (\<lambda>tl. (t0 @ tl @ cleanup, 0)) (event_loop K r0 evs)"
  by (simp add: main_def split: option.splits)

lemma main_Exit: "startup S = Exit t c \<Longrightarrow> main K S evs = Some (t, c)"
  by (simp add: main_def)

lemma loop_action_not_cleanup:
  "\<forall>x \<in> set t. loop_action x \<Longrightarrow> Close \<notin> set t \<and> Wifi WifiCleanup \<notin> set t"
  by auto

lemma event_loop_returns:
  assumes "case_labels_distinct K" "1 \<le> cmd_size K"
    and "r = 0 \<or> (\<exists>x \<in> set es. shutdown_trigger K x)"
  shows "\<exists>t. event_loop K r es = Some t"
proof (cases "r = 0")
  case True
  then show ?thesis by (simp add: event_loop_stopped)
next
  case False
  with assms(3) have "\<exists>x \<in> set es. shutdown_trigger K x" by simp
  from split_list_first_prop [OF this]
  obtain pre e rest where "es = pre @ e # rest" "shutdown_trigger K e"
    "\<forall>x \<in> set pre. \<not> shutdown_trigger K x"
    by blast
  with event_loop_prefix [OF assms(1,2) False, of e pre rest] show ?thesis by simp
qed

lemma main_no_associate:
  assumes "main K S evs = Some (t, code)"
  shows "\<not> list_ex is_associate (wifi_calls t)"
proof (cases "startup S")
  case (Exit t' c')
  with assms have "t = t'" by (simp add: main_def)
  with startup_no_associate [of S t' c'] Exit show ?thesis by simp
next
  case (Listening t0 r0)
  from assms obtain tl where tl: "event_loop K r0 evs = Some tl"
    and t: "t = t0 @ tl @ cleanup"
    by (auto simp add: main_Listening [OF Listening])
  from event_loop_loop_action [OF tl] have "\<not> list_ex is_associate (wifi_calls tl)"
    by (rule loop_action_no_associate)
  moreover from startup_no_associate [of S t0 _ r0] Listening
  have "\<not> list_ex is_associate (wifi_calls t0)" by simp
  ultimately show ?thesis
    by (simp add: t wifi_calls_append cleanup_def)
qed

section \<open>The claims\<close>

subsection \<open>C1: a SYNC frame is answered with one STATUS frame\<close>

text \<open>
  C1. For every frame whose control code is \<^verbatim>\<open>SYNC\<close>, in any state (any value of
  \<^verbatim>\<open>running\<close>, so in every non-terminal one), the pass of the loop logs the code, calls
  \<^verbatim>\<open>wifi_scan_for_wiiu\<close> once and sends exactly one frame to the sender of the
  command. The frame has the size of the command struct, its first byte is the
  \<^verbatim>\<open>STATUS\<close> code, and the four bytes of its status field are the result code, most
  significant byte first, on either kind of host: the success code when the scan
  returned 0, the generic error code otherwise. The state is unchanged.
\<close>

theorem sync_sends_one_status:
  assumes "layout_ok K"
    and "recv e = Datagram client (cc_sync K # payload)"
    and "code = (if scan_result e = 0 then vanilla_success K else vanilla_err_generic K)"
    and "frame = status_response K (resp_stack e) code"
  shows "loop_body K running e =
           (running, [Log (MsgReceived (cc_sync K)), Wifi WifiScanForWiiu, SendTo client frame])
         \<and> sends (snd (loop_body K running e)) = [(client, frame)]
         \<and> length frame = cmd_size K
         \<and> frame ! 0 = cc_status K
         \<and> take 4 (drop (status_off K) frame) = be_bytes code
         \<and> be_decode (take 4 (drop (status_off K) frame)) = code"
proof -
  from assms(1) have "1 \<le> cmd_size K" by (simp add: layout_ok_def)
  then have body: "loop_body K running e =
      (running, [Log (MsgReceived (cc_sync K)), Wifi WifiScanForWiiu, SendTo client frame])"
    using assms(2-4) by (simp add: loop_body_datagram dispatch_sync)
  moreover have "sends (snd (loop_body K running e)) = [(client, frame)]"
    by (simp add: body)
  moreover have "length frame = cmd_size K" "frame ! 0 = cc_status K"
    using assms(1,4) by (simp_all add: status_response_length status_response_code)
  moreover have field: "take 4 (drop (status_off K) frame) = be_bytes code"
    using assms(1,4) by (simp add: status_response_field)
  moreover have "be_decode (take 4 (drop (status_off K) frame)) = code"
    by (simp add: field be_decode_be_bytes)
  ultimately show ?thesis by simp
qed

text \<open>
  The theorem at the sample constants: a one-byte \<^verbatim>\<open>SYNC\<close> frame from the address
  \<open>[9]\<close>, with a scan that returns 3; and, to make the byte order visible, with a scan
  that returns 0 when the success code is \<open>0x0A0B0C0D\<close>.
\<close>

theorem sync_sends_one_status_witness:
  "layout_ok example_proto
   \<and> (loop_body example_proto 1 ((frame_event [9] [1]) \<lparr>scan_result := 3\<rparr>) =
         (1, [Log (MsgReceived 1), Wifi WifiScanForWiiu,
              SendTo [9] [5, 255, 255, 255, 255, 0, 0, 0]])
      \<and> sends (snd (loop_body example_proto 1 ((frame_event [9] [1]) \<lparr>scan_result := 3\<rparr>))) =
          [([9], [5, 255, 255, 255, 255, 0, 0, 0])]
      \<and> length [5, 255, 255, 255, 255, 0, 0, 0 :: byte] = 8
      \<and> [5, 255, 255, 255, 255, 0, 0, 0 :: byte] ! 0 = 5
      \<and> take 4 (drop 1 [5, 255, 255, 255, 255, 0, 0, 0 :: byte]) = be_bytes (- 1)
      \<and> be_decode (take 4 (drop 1 [5, 255, 255, 255, 255, 0, 0, 0 :: byte])) = - 1)
   \<and> layout_ok (example_proto \<lparr>vanilla_success := 0x0A0B0C0D\<rparr>)
   \<and> sends (snd (loop_body (example_proto \<lparr>vanilla_success := 0x0A0B0C0D\<rparr>) 1
         (frame_event [9] [1]))) =
       [([9], [5, 0x0A, 0x0B, 0x0C, 0x0D, 0, 0, 0])]"
proof -
  let ?e = "(frame_event [9] [1]) \<lparr>scan_result := 3\<rparr>"
  let ?K' = "example_proto \<lparr>vanilla_success := 0x0A0B0C0D\<rparr>"
  have g1: "layout_ok ?K'"
    by code_simp
  have g2: "recv (frame_event [9] [1]) = Datagram [9] (cc_sync ?K' # [])"
    by code_simp
  have g3: "(0x0A0B0C0D :: u32) =
      (if scan_result (frame_event [9] [1]) = 0 then vanilla_success ?K'
       else vanilla_err_generic ?K')"
    by code_simp
  have g4: "[5, 0x0A, 0x0B, 0x0C, 0x0D, 0, 0, 0] =
      status_response ?K' (resp_stack (frame_event [9] [1])) 0x0A0B0C0D"
    by code_simp
  from sync_sends_one_status [OF g1 g2 g3 g4, of 1]
  have g: "sends (snd (loop_body ?K' 1 (frame_event [9] [1]))) =
      [([9], [5, 0x0A, 0x0B, 0x0C, 0x0D, 0, 0, 0])]"
    by blast
  have h1: "layout_ok example_proto"
    by code_simp
  have h2: "recv ?e = Datagram [9] (cc_sync example_proto # [])"
    by code_simp
  have h3: "(- 1 :: u32) =
      (if scan_result ?e = 0 then vanilla_success example_proto
       else vanilla_err_generic example_proto)"
    by code_simp
  have h4: "[5, 255, 255, 255, 255, 0, 0, 0] =
      status_response example_proto (resp_stack ?e) (- 1)"
    by code_simp
  have K: "cc_sync example_proto = 1" "cc_status example_proto = 5"
    "cmd_size example_proto = 8" "status_off example_proto = 1"
    by (simp_all add: example_proto_def)
  show ?thesis
    using h1 g1 g sync_sends_one_status [OF h1 h2 h3 h4, of 1] unfolding K by blast
qed

subsection \<open>C2: frames shorter than the command struct\<close>

text \<open>
  C2 (as stated, refuted). The claim says that a received byte sequence of positive
  length that is shorter than the command struct is a decode error: no response, no
  Wi-Fi call. The loop tests only \<^verbatim>\<open>recv_len <= 0\<close>. At the sample constants, the
  one-byte datagram \<open>[0x01]\<close> is shorter than the struct of 8 bytes, and it is served as
  a \<^verbatim>\<open>SYNC\<close>: the scan is called and a \<^verbatim>\<open>STATUS\<close> frame is sent.
\<close>

theorem short_frame_counterexample:
  "0 < length [1 :: byte] \<and> length [1 :: byte] < cmd_size example_proto
   \<and> loop_body example_proto 1 (frame_event [9] [1]) =
       (1, [Log (MsgReceived 1), Wifi WifiScanForWiiu, SendTo [9] [5, 0, 0, 0, 0, 0, 0, 0]])
   \<and> wifi_calls (snd (loop_body example_proto 1 (frame_event [9] [1]))) = [WifiScanForWiiu]
   \<and> sends (snd (loop_body example_proto 1 (frame_event [9] [1]))) =
       [([9], [5, 0, 0, 0, 0, 0, 0, 0])]"
  by code_simp

text \<open>
  C2 (as amended). A received byte sequence of positive length that is shorter than the
  command struct is dispatched on its first byte, exactly as the full-size frame it is a
  prefix of; there is no decode error. When its first byte is none of the four command
  codes, the pass only logs: no response, no Wi-Fi call, no change of state, and the loop
  goes on with the next pass.
\<close>

theorem short_frame_dispatched:
  assumes "recv e = Datagram client (c # payload)"
    and "length (c # payload) < cmd_size K"
  shows "loop_body K running e = dispatch K running client c payload e
         \<and> loop_body K running (e\<lparr>recv := Datagram client (c # payload @ padding)\<rparr>) =
             loop_body K running e
         \<and> (\<not> is_command K c \<longrightarrow>
              loop_body K running e = (running, [Log (MsgReceived c), Log (MsgUnknown c)])
              \<and> sends (snd (loop_body K running e)) = []
              \<and> wifi_calls (snd (loop_body K running e)) = []
              \<and> (running \<noteq> 0 \<and> signals e = [] \<longrightarrow>
                   event_loop K running (e # es) =
                     map_option ((@) [Log (MsgReceived c), Log (MsgUnknown c)])
                       (event_loop K running es)))"
proof -
  from assms(2) have sz: "1 \<le> cmd_size K" by simp
  have body: "loop_body K running e = dispatch K running client c payload e"
    using assms by (simp add: loop_body_datagram [OF sz])
  have pay: "dispatch K running client c p1 e1 = dispatch K running client c p2 e2"
    if "scan_result e1 = scan_result e2" "resp_stack e1 = resp_stack e2" for p1 p2 e1 e2
    using that by (simp add: dispatch_def)
  have padded: "loop_body K running (e\<lparr>recv := Datagram client (c # payload @ padding)\<rparr>) =
      loop_body K running e"
    unfolding body by (subst loop_body_datagram [OF sz]) (simp, rule pay, simp_all)
  have unk: "loop_body K running e = (running, [Log (MsgReceived c), Log (MsgUnknown c)])"
    if "\<not> is_command K c"
    using that by (simp add: body dispatch_unknown)
  show ?thesis
    using body padded unk event_loop_same_state [of running e K _ es] by auto
qed

text \<open>The theorem at the sample constants and the one-byte datagram \<open>[0xFF]\<close>.\<close>

theorem short_frame_dispatched_witness:
  "length [255 :: byte] < cmd_size example_proto
   \<and> \<not> is_command example_proto 255
   \<and> loop_body example_proto 1 (frame_event [9] [255]) =
       (1, [Log (MsgReceived 255), Log (MsgUnknown 255)])
   \<and> loop_body example_proto 1 (frame_event [9] [255]) =
       dispatch example_proto 1 [9] 255 [] (frame_event [9] [255])
   \<and> event_loop example_proto 1 [frame_event [9] [255]] = None"
proof -
  let ?e = "frame_event [9] [255]"
  have h1: "recv ?e = Datagram [9] (255 # [])"
    by code_simp
  have h2: "length [255 :: byte] < cmd_size example_proto"
    by code_simp
  have h3: "\<not> is_command example_proto 255"
    by code_simp
  have h4: "(1 :: int) \<noteq> 0 \<and> signals ?e = []"
    by code_simp
  have h5: "event_loop example_proto 1 [] = None"
    by code_simp
  note T = short_frame_dispatched [OF h1 h2, of 1 "[]" "[]"]
  from T have a: "loop_body example_proto 1 ?e = dispatch example_proto 1 [9] 255 [] ?e"
    by blast
  from T h3 have b:
    "loop_body example_proto 1 ?e = (1, [Log (MsgReceived 255), Log (MsgUnknown 255)])"
    by blast
  from T h3 h4 have "event_loop example_proto 1 [?e] =
      map_option ((@) [Log (MsgReceived 255), Log (MsgUnknown 255)])
        (event_loop example_proto 1 [])"
    by blast
  then have c: "event_loop example_proto 1 [?e] = None"
    by (simp only: h5 option.map)
  show ?thesis
    using h2 h3 a b c by blast
qed

subsection \<open>C3: a CONNECT frame is answered with one BIND_ACK byte\<close>

text \<open>
  C3 (as stated, refuted). The claim says that a \<^verbatim>\<open>CONNECT\<close> moves the session state
  to \<open>Connecting\<close>. The program keeps no session state. At the sample constants, a
  \<^verbatim>\<open>CONNECT\<close> received in the initial state, \<^verbatim>\<open>running = 1\<close>, which is the
  specification's \<open>Idle\<close>, is answered with the \<^verbatim>\<open>BIND_ACK\<close> byte and leaves
  \<^verbatim>\<open>running = 1\<close>: the state is the initial one, not \<open>Connecting\<close>.
\<close>

theorem connect_state_counterexample:
  "loop_body example_proto 1 (frame_event [9] [2]) =
     (1, [Log (MsgReceived 2), Log MsgConnectRequest, SendTo [9] [6]])
   \<and> spec_session 1 = Idle
   \<and> spec_session (fst (loop_body example_proto 1 (frame_event [9] [2]))) \<noteq> Connecting"
  by code_simp

text \<open>
  C3 (as amended). For every \<^verbatim>\<open>CONNECT\<close> frame, in any state, the pass sends exactly
  one frame to the sender, the single byte \<^verbatim>\<open>BIND_ACK\<close>, and leaves the state of the
  program unchanged; no \<open>Connecting\<close> state is entered. The loop goes on in the same
  state, so a repeated \<^verbatim>\<open>CONNECT\<close> is answered with another \<^verbatim>\<open>BIND_ACK\<close> and is
  not rejected.
\<close>

theorem connect_sends_bind_ack:
  assumes "case_labels_distinct K"
    and "1 \<le> cmd_size K"
    and "recv e = Datagram client (cc_connect K # payload)"
  shows "loop_body K running e =
           (running, [Log (MsgReceived (cc_connect K)), Log MsgConnectRequest,
                      SendTo client [cc_bind_ack K]])
         \<and> sends (snd (loop_body K running e)) = [(client, [cc_bind_ack K])]
         \<and> fst (loop_body K running e) = running
         \<and> (running \<noteq> 0 \<and> signals e = [] \<longrightarrow>
              event_loop K running (e # es) =
                map_option ((@) [Log (MsgReceived (cc_connect K)), Log MsgConnectRequest,
                                 SendTo client [cc_bind_ack K]])
                  (event_loop K running es))"
proof -
  have body: "loop_body K running e =
      (running, [Log (MsgReceived (cc_connect K)), Log MsgConnectRequest,
                 SendTo client [cc_bind_ack K]])"
    using assms by (simp add: loop_body_datagram dispatch_connect)
  then show ?thesis
    using event_loop_same_state [of running e K _ es] by simp
qed

text \<open>The theorem at the sample constants, with two \<^verbatim>\<open>CONNECT\<close> frames in a row.\<close>

theorem connect_sends_bind_ack_witness:
  "case_labels_distinct example_proto \<and> 1 \<le> cmd_size example_proto
   \<and> loop_body example_proto 1 (frame_event [9] [2, 7, 7]) =
       (1, [Log (MsgReceived 2), Log MsgConnectRequest, SendTo [9] [6]])
   \<and> sends (snd (loop_body example_proto 1 (frame_event [9] [2, 7, 7]))) = [([9], [6])]
   \<and> event_loop example_proto 1 [frame_event [9] [2, 7, 7], frame_event [9] [2, 7, 7]] =
       map_option ((@) [Log (MsgReceived 2), Log MsgConnectRequest, SendTo [9] [6]])
         (event_loop example_proto 1 [frame_event [9] [2, 7, 7]])"
proof -
  let ?e = "frame_event [9] [2, 7, 7]"
  have h1: "case_labels_distinct example_proto"
    by code_simp
  have h2: "1 \<le> cmd_size example_proto"
    by code_simp
  have h3: "recv ?e = Datagram [9] (cc_connect example_proto # [7, 7])"
    by code_simp
  have h4: "(1 :: int) \<noteq> 0 \<and> signals ?e = []"
    by code_simp
  have K: "cc_connect example_proto = 2" "cc_bind_ack example_proto = 6"
    by (simp_all add: example_proto_def)
  show ?thesis
    using h1 h2 h4 connect_sends_bind_ack [OF h1 h2 h3, of 1 "[?e]"] unfolding K by blast
qed

subsection \<open>C4: an UNBIND frame disassociates once and is not answered\<close>

text \<open>
  C4. For every \<^verbatim>\<open>UNBIND\<close> frame received while the loop runs, the pass calls
  \<^verbatim>\<open>wifi_disassociate\<close> exactly once and no other Wi-Fi function, sends nothing, and
  leaves \<^verbatim>\<open>running\<close> set: the state is the specification's \<open>Idle\<close>, and from it
  the loop behaves on every sequence of events as it does from the state the process
  started in.
\<close>

theorem unbind_disassociates_once:
  assumes "case_labels_distinct K"
    and "1 \<le> cmd_size K"
    and "recv e = Datagram client (cc_unbind K # payload)"
    and "running \<noteq> 0"
  shows "loop_body K running e =
           (running, [Log (MsgReceived (cc_unbind K)), Log MsgUnbindRequest,
                      Wifi WifiDisassociate])
         \<and> wifi_calls (snd (loop_body K running e)) = [WifiDisassociate]
         \<and> sends (snd (loop_body K running e)) = []
         \<and> spec_session (fst (loop_body K running e)) = Idle
         \<and> event_loop K (fst (loop_body K running e)) es = event_loop K 1 es"
proof -
  have body: "loop_body K running e =
      (running, [Log (MsgReceived (cc_unbind K)), Log MsgUnbindRequest, Wifi WifiDisassociate])"
    using assms(1-3) by (simp add: loop_body_datagram dispatch_unbind)
  have "event_loop K running es = event_loop K 1 es"
    using assms(4) by (rule event_loop_running)
  with body assms(4) show ?thesis
    by (simp add: spec_session_def del: event_loop.simps)
qed

text \<open>The theorem at the sample constants and a one-byte \<^verbatim>\<open>UNBIND\<close> frame.\<close>

theorem unbind_disassociates_once_witness:
  "case_labels_distinct example_proto \<and> 1 \<le> cmd_size example_proto \<and> (1 :: int) \<noteq> 0
   \<and> loop_body example_proto 1 (frame_event [9] [3]) =
       (1, [Log (MsgReceived 3), Log MsgUnbindRequest, Wifi WifiDisassociate])
   \<and> wifi_calls (snd (loop_body example_proto 1 (frame_event [9] [3]))) = [WifiDisassociate]
   \<and> sends (snd (loop_body example_proto 1 (frame_event [9] [3]))) = []
   \<and> spec_session (fst (loop_body example_proto 1 (frame_event [9] [3]))) = Idle
   \<and> event_loop example_proto (fst (loop_body example_proto 1 (frame_event [9] [3])))
         [frame_event [9] [4]] =
       event_loop example_proto 1 [frame_event [9] [4]]"
proof -
  let ?e = "frame_event [9] [3]"
  have h1: "case_labels_distinct example_proto"
    by code_simp
  have h2: "1 \<le> cmd_size example_proto"
    by code_simp
  have h3: "recv ?e = Datagram [9] (cc_unbind example_proto # [])"
    by code_simp
  have h4: "(1 :: int) \<noteq> 0"
    by simp
  have K: "cc_unbind example_proto = 3"
    by (simp add: example_proto_def)
  show ?thesis
    using h1 h2 h4 unbind_disassociates_once [OF h1 h2 h3 h4, of "[frame_event [9] [4]]"]
    unfolding K by blast
qed

subsection \<open>C5: shutdown closes the socket, then cleans up the Wi-Fi interface\<close>

text \<open>
  C5. Once the socket is bound: a \<^verbatim>\<open>QUIT\<close> frame or a signal clears \<^verbatim>\<open>running\<close>
  in the pass that sees it. When the flag is already cleared by a signal during the
  start-up, no pass runs. When the events \<open>pre\<close> hold no trigger and \<open>e\<close> is one,
  \<^verbatim>\<open>main\<close> returns right after the pass of \<open>e\<close>, whatever events \<open>rest\<close> would
  follow. On every path on which \<^verbatim>\<open>main\<close> returns from the loop, the exit code is 0
  and the trace ends with closing the socket, then \<^verbatim>\<open>wifi_cleanup\<close>, then the last
  log line; neither call occurs earlier in the trace.
\<close>

theorem shutdown_closes_then_cleans_up:
  assumes "case_labels_distinct K"
    and "1 \<le> cmd_size K"
    and "startup S = Listening t0 r0"
  shows "(shutdown_trigger K e \<longrightarrow> fst (iteration K running e) = 0)
         \<and> (r0 = 0 \<longrightarrow>
              main K S evs = Some (t0 @ [Close, Wifi WifiCleanup, Log MsgShutdownComplete], 0))
         \<and> (r0 \<noteq> 0 \<and> (\<forall>x \<in> set pre. \<not> shutdown_trigger K x) \<and> shutdown_trigger K e \<longrightarrow>
              main K S (pre @ e # rest) =
                Some (t0 @ (concat (map (\<lambda>x. snd (iteration K r0 x)) pre)
                        @ snd (iteration K r0 e))
                      @ [Close, Wifi WifiCleanup, Log MsgShutdownComplete], 0))
         \<and> (\<forall>t code. main K S evs = Some (t, code) \<longrightarrow>
              code = 0
              \<and> (\<exists>t'. t = t' @ [Close, Wifi WifiCleanup, Log MsgShutdownComplete]
                    \<and> Close \<notin> set t' \<and> Wifi WifiCleanup \<notin> set t'))"
proof -
  note m = main_Listening [OF assms(3), of K]
  have a: "shutdown_trigger K e \<longrightarrow> fst (iteration K running e) = 0"
    using assms(1,2) by (simp add: iteration_trigger)
  have b: "r0 = 0 \<longrightarrow>
      main K S evs = Some (t0 @ [Close, Wifi WifiCleanup, Log MsgShutdownComplete], 0)"
    by (simp add: m event_loop_stopped cleanup_def)
  have c: "r0 \<noteq> 0 \<and> (\<forall>x \<in> set pre. \<not> shutdown_trigger K x) \<and> shutdown_trigger K e \<longrightarrow>
      main K S (pre @ e # rest) =
        Some (t0 @ (concat (map (\<lambda>x. snd (iteration K r0 x)) pre) @ snd (iteration K r0 e))
              @ [Close, Wifi WifiCleanup, Log MsgShutdownComplete], 0)"
    using assms(1,2) by (simp add: m event_loop_prefix cleanup_def)
  have d: "code = 0 \<and> (\<exists>t'. t = t' @ [Close, Wifi WifiCleanup, Log MsgShutdownComplete]
                    \<and> Close \<notin> set t' \<and> Wifi WifiCleanup \<notin> set t')"
    if "main K S evs = Some (t, code)" for t code
  proof -
    from that obtain tl where tl: "event_loop K r0 evs = Some tl"
      and t: "t = (t0 @ tl) @ [Close, Wifi WifiCleanup, Log MsgShutdownComplete]"
      and code: "code = 0"
      by (auto simp add: m cleanup_def)
    from event_loop_loop_action [OF tl] have "Close \<notin> set tl \<and> Wifi WifiCleanup \<notin> set tl"
      by (rule loop_action_not_cleanup)
    with startup_Listening_trace [OF assms(3)]
    have "Close \<notin> set (t0 @ tl) \<and> Wifi WifiCleanup \<notin> set (t0 @ tl)"
      by simp
    with t code show ?thesis by blast
  qed
  from a b c d show ?thesis by blast
qed

text \<open>
  The theorem at the sample constants: a run that ends with a \<^verbatim>\<open>QUIT\<close> frame after
  an unknown frame, and a run that ends with signal 15 during a failed receive. In both
  runs the \<^verbatim>\<open>SYNC\<close> frame that follows is not served.
\<close>

theorem shutdown_closes_then_cleans_up_witness:
  "case_labels_distinct example_proto \<and> 1 \<le> cmd_size example_proto
   \<and> startup example_startup =
       Listening [InstallHandlers, Log MsgInitWifi, Wifi (WifiInit None), Log MsgReady,
                  Log MsgListening, Socket Local, Unlink, Bind Local, SetRcvTimeout] 1
   \<and> shutdown_trigger example_proto (frame_event [9] [4])
   \<and> \<not> shutdown_trigger example_proto (frame_event [9] [255])
   \<and> main example_proto example_startup
         [frame_event [9] [255], frame_event [9] [4], frame_event [9] [1]] =
       Some ([InstallHandlers, Log MsgInitWifi, Wifi (WifiInit None), Log MsgReady,
              Log MsgListening, Socket Local, Unlink, Bind Local, SetRcvTimeout,
              Log (MsgReceived 255), Log (MsgUnknown 255),
              Log (MsgReceived 4), Log MsgQuitRequest,
              Close, Wifi WifiCleanup, Log MsgShutdownComplete], 0)
   \<and> shutdown_trigger example_proto (signal_event 15)
   \<and> main example_proto example_startup [signal_event 15, frame_event [9] [1]] =
       Some ([InstallHandlers, Log MsgInitWifi, Wifi (WifiInit None), Log MsgReady,
              Log MsgListening, Socket Local, Unlink, Bind Local, SetRcvTimeout,
              Log (MsgSignal 15),
              Close, Wifi WifiCleanup, Log MsgShutdownComplete], 0)"
proof -
  let ?t0 = "[InstallHandlers, Log MsgInitWifi, Wifi (WifiInit None), Log MsgReady,
              Log MsgListening, Socket Local, Unlink, Bind Local, SetRcvTimeout]"
  have h1: "case_labels_distinct example_proto"
    by code_simp
  have h2: "1 \<le> cmd_size example_proto"
    by code_simp
  have h3: "startup example_startup = Listening ?t0 1"
    by code_simp
  have q: "shutdown_trigger example_proto (frame_event [9] [4])"
    by code_simp
  have u: "\<not> shutdown_trigger example_proto (frame_event [9] [255])"
    by code_simp
  have s: "shutdown_trigger example_proto (signal_event 15)"
    by code_simp
  have pre1: "(1 :: int) \<noteq> 0
      \<and> (\<forall>x \<in> set [frame_event [9] [255]]. \<not> shutdown_trigger example_proto x)
      \<and> shutdown_trigger example_proto (frame_event [9] [4])"
    using q u by simp
  have pre2: "(1 :: int) \<noteq> 0
      \<and> (\<forall>x \<in> set []. \<not> shutdown_trigger example_proto x)
      \<and> shutdown_trigger example_proto (signal_event 15)"
    using s by simp
  have e1: "?t0 @ (concat (map (\<lambda>x. snd (iteration example_proto 1 x)) [frame_event [9] [255]])
                @ snd (iteration example_proto 1 (frame_event [9] [4])))
              @ [Close, Wifi WifiCleanup, Log MsgShutdownComplete]
            = [InstallHandlers, Log MsgInitWifi, Wifi (WifiInit None), Log MsgReady,
              Log MsgListening, Socket Local, Unlink, Bind Local, SetRcvTimeout,
              Log (MsgReceived 255), Log (MsgUnknown 255),
              Log (MsgReceived 4), Log MsgQuitRequest,
              Close, Wifi WifiCleanup, Log MsgShutdownComplete]"
    by code_simp
  have e2: "?t0 @ (concat (map (\<lambda>x. snd (iteration example_proto 1 x)) [])
                @ snd (iteration example_proto 1 (signal_event 15)))
              @ [Close, Wifi WifiCleanup, Log MsgShutdownComplete]
            = [InstallHandlers, Log MsgInitWifi, Wifi (WifiInit None), Log MsgReady,
              Log MsgListening, Socket Local, Unlink, Bind Local, SetRcvTimeout,
              Log (MsgSignal 15),
              Close, Wifi WifiCleanup, Log MsgShutdownComplete]"
    by code_simp
  from shutdown_closes_then_cleans_up [OF h1 h2 h3, of "frame_event [9] [4]" 1 "[]"
      "[frame_event [9] [255]]" "[frame_event [9] [1]]"] pre1
  have m1: "main example_proto example_startup
        ([frame_event [9] [255]] @ frame_event [9] [4] # [frame_event [9] [1]]) =
      Some (?t0 @ (concat (map (\<lambda>x. snd (iteration example_proto 1 x)) [frame_event [9] [255]])
                @ snd (iteration example_proto 1 (frame_event [9] [4])))
              @ [Close, Wifi WifiCleanup, Log MsgShutdownComplete], 0)"
    by blast
  from shutdown_closes_then_cleans_up [OF h1 h2 h3, of "signal_event 15" 1 "[]"
      "[]" "[frame_event [9] [1]]"] pre2
  have m2: "main example_proto example_startup
        ([] @ signal_event 15 # [frame_event [9] [1]]) =
      Some (?t0 @ (concat (map (\<lambda>x. snd (iteration example_proto 1 x)) [])
                @ snd (iteration example_proto 1 (signal_event 15)))
              @ [Close, Wifi WifiCleanup, Log MsgShutdownComplete], 0)"
    by blast
  have l1: "[frame_event [9] [255]] @ frame_event [9] [4] # [frame_event [9] [1]] =
      [frame_event [9] [255], frame_event [9] [4], frame_event [9] [1]]"
    by simp
  have l2: "[] @ signal_event 15 # [frame_event [9] [1]] =
      [signal_event 15, frame_event [9] [1]]"
    by simp
  show ?thesis
    using h1 h2 h3 q u s m1 [unfolded e1 l1] m2 [unfolded e2 l2] by blast
qed

subsection \<open>C6: an unrecognised control code is only logged\<close>

text \<open>
  C6. For every frame whose control code is none of the four commands, the pass logs two
  lines and does nothing else: it sends nothing, calls no Wi-Fi function and leaves
  \<^verbatim>\<open>running\<close> as it was, and the loop goes on with the next pass. The loop is left only
  through a trigger: if it returns at all from a state with \<^verbatim>\<open>running\<close> set, one of the
  events was a \<^verbatim>\<open>QUIT\<close> frame or carried a signal; and if \<^verbatim>\<open>main\<close> returns, then
  either the start-up returned, or a signal arrived during the start-up, or one of the
  events was a trigger.
\<close>

theorem unknown_code_only_logs:
  assumes "1 \<le> cmd_size K"
    and "recv e = Datagram client (c # payload)"
    and "\<not> is_command K c"
  shows "loop_body K running e = (running, [Log (MsgReceived c), Log (MsgUnknown c)])
         \<and> sends (snd (loop_body K running e)) = []
         \<and> wifi_calls (snd (loop_body K running e)) = []
         \<and> (running \<noteq> 0 \<and> signals e = [] \<longrightarrow>
              event_loop K running (e # es) =
                map_option ((@) [Log (MsgReceived c), Log (MsgUnknown c)])
                  (event_loop K running es))
         \<and> (\<forall>r evs t. r \<noteq> 0 \<and> event_loop K r evs = Some t \<longrightarrow>
              (\<exists>x \<in> set evs. shutdown_trigger K x))
         \<and> (\<forall>S evs t code. main K S evs = Some (t, code) \<longrightarrow>
              (\<exists>t'. startup S = Exit t' code) \<or> startup_signals S \<noteq> []
              \<or> (\<exists>x \<in> set evs. shutdown_trigger K x))"
proof -
  have body: "loop_body K running e = (running, [Log (MsgReceived c), Log (MsgUnknown c)])"
    using assms by (simp add: loop_body_datagram dispatch_unknown)
  have loop: "\<exists>x \<in> set evs. shutdown_trigger K x"
    if "r \<noteq> 0 \<and> event_loop K r evs = Some t" for r evs t
    using that event_loop_Some_trigger by blast
  have whole: "(\<exists>t'. startup S = Exit t' code) \<or> startup_signals S \<noteq> []
      \<or> (\<exists>x \<in> set evs. shutdown_trigger K x)"
    if m: "main K S evs = Some (t, code)" for S evs t code
  proof (cases "startup S")
    case (Exit t' c')
    with m show ?thesis by (simp add: main_def)
  next
    case (Listening t0 r0)
    from m obtain tl where tl: "event_loop K r0 evs = Some tl"
      by (auto simp add: main_Listening [OF Listening])
    show ?thesis
    proof (cases "startup_signals S = []")
      case True
      with startup_Listening_trace [OF Listening] have "r0 \<noteq> 0" by simp
      from event_loop_Some_trigger [OF this tl] show ?thesis by blast
    next
      case False
      then show ?thesis by blast
    qed
  qed
  have obs: "sends (snd (loop_body K running e)) = []"
    "wifi_calls (snd (loop_body K running e)) = []"
    by (simp_all add: body)
  have cont: "running \<noteq> 0 \<and> signals e = [] \<longrightarrow>
      event_loop K running (e # es) =
        map_option ((@) [Log (MsgReceived c), Log (MsgUnknown c)]) (event_loop K running es)"
    using body event_loop_same_state [of running e K _ es] by blast
  from body obs cont loop whole show ?thesis
    by blast
qed

text \<open>The theorem at the sample constants and a frame with the control code \<open>0xFF\<close>.\<close>

theorem unknown_code_only_logs_witness:
  "1 \<le> cmd_size example_proto \<and> \<not> is_command example_proto 255
   \<and> loop_body example_proto 1 (frame_event [9] [255, 1, 2]) =
       (1, [Log (MsgReceived 255), Log (MsgUnknown 255)])
   \<and> sends (snd (loop_body example_proto 1 (frame_event [9] [255, 1, 2]))) = []
   \<and> wifi_calls (snd (loop_body example_proto 1 (frame_event [9] [255, 1, 2]))) = []
   \<and> event_loop example_proto 1 [frame_event [9] [255, 1, 2], frame_event [9] [4]] =
       map_option ((@) [Log (MsgReceived 255), Log (MsgUnknown 255)])
         (event_loop example_proto 1 [frame_event [9] [4]])
   \<and> event_loop example_proto 1 [frame_event [9] [255, 1, 2], frame_event [9] [4]] =
       Some [Log (MsgReceived 255), Log (MsgUnknown 255),
             Log (MsgReceived 4), Log MsgQuitRequest]
   \<and> (\<exists>x \<in> set [frame_event [9] [255, 1, 2], frame_event [9] [4]].
         shutdown_trigger example_proto x)"
proof -
  let ?e = "frame_event [9] [255, 1, 2]"
  have h5: "(1 :: int) \<noteq> 0
      \<and> event_loop example_proto 1 [?e, frame_event [9] [4]] =
          Some [Log (MsgReceived 255), Log (MsgUnknown 255),
                Log (MsgReceived 4), Log MsgQuitRequest]"
    by code_simp
  have h1: "1 \<le> cmd_size example_proto"
    by code_simp
  have h2: "recv ?e = Datagram [9] (255 # [1, 2])"
    by code_simp
  have h3: "\<not> is_command example_proto 255"
    by code_simp
  have h4: "(1 :: int) \<noteq> 0 \<and> signals ?e = []"
    by code_simp
  show ?thesis
    using h1 h3 h4 h5 unknown_code_only_logs [OF h1 h2 h3, of 1 "[frame_event [9] [4]]"]
    by blast
qed

subsection \<open>C7: exit codes\<close>

text \<open>
  C7. \<^verbatim>\<open>main\<close> returns 0 when one of the arguments is \<^verbatim>\<open>-h\<close> or \<^verbatim>\<open>--help\<close>. Without
  such an argument it returns 1 when there are fewer than two arguments, when both or
  neither of \<^verbatim>\<open>-udp\<close> and \<^verbatim>\<open>-local\<close> are given, when \<^verbatim>\<open>wifi_init\<close> fails, and when
  \<^verbatim>\<open>bind\<close> fails; in the last case the trace ends with \<^verbatim>\<open>wifi_cleanup\<close>, after the
  one call of \<^verbatim>\<open>wifi_init\<close>, and the socket is not closed. After a successful start-up
  the only exit code is 0, and \<^verbatim>\<open>main\<close> does return it as soon as a trigger arrives.
\<close>

theorem exit_codes:
  "(help_requested (argv S) \<longrightarrow> exit_code K S evs = Some 0)
   \<and> (length (argv S) < 2 \<longrightarrow> exit_code K S evs = Some 1)
   \<and> (\<not> help_requested (argv S) \<and> udp_selected (argv S) = local_selected (argv S) \<longrightarrow>
        exit_code K S evs = Some 1)
   \<and> (\<not> help_requested (argv S) \<and> udp_selected (argv S) \<noteq> local_selected (argv S)
        \<and> wifi_init_result S \<noteq> 0 \<longrightarrow>
        exit_code K S evs = Some 1)
   \<and> (\<not> help_requested (argv S) \<and> udp_selected (argv S) \<noteq> local_selected (argv S)
        \<and> wifi_init_result S = 0 \<and> bind_result S < 0 \<longrightarrow>
        exit_code K S evs = Some 1
        \<and> (\<exists>t w. main K S evs = Some (t @ [Wifi WifiCleanup], 1)
              \<and> wifi_calls t = [WifiInit w] \<and> Close \<notin> set t))
   \<and> (\<not> help_requested (argv S) \<and> udp_selected (argv S) \<noteq> local_selected (argv S)
        \<and> wifi_init_result S = 0 \<and> 0 \<le> bind_result S \<longrightarrow>
        (exit_code K S evs = None \<or> exit_code K S evs = Some 0)
        \<and> (case_labels_distinct K \<and> 1 \<le> cmd_size K
            \<and> (startup_signals S \<noteq> [] \<or> (\<exists>x \<in> set evs. shutdown_trigger K x)) \<longrightarrow>
            exit_code K S evs = Some 0))"
proof -
  have a: "exit_code K S evs = Some 0" if "help_requested (argv S)"
    using startup_help [OF that] by (auto simp add: exit_code_def main_def)
  have b: "exit_code K S evs = Some 1" if "length (argv S) < 2"
    using startup_few_args [OF that] by (auto simp add: exit_code_def main_def)
  have c: "exit_code K S evs = Some 1"
    if "\<not> help_requested (argv S)" "udp_selected (argv S) = local_selected (argv S)"
    using startup_bad_modes [OF that] by (auto simp add: exit_code_def main_def)
  have d: "exit_code K S evs = Some 1"
    if "\<not> help_requested (argv S)" "udp_selected (argv S) \<noteq> local_selected (argv S)"
      "wifi_init_result S \<noteq> 0"
    using startup_init_failed [OF that] by (auto simp add: exit_code_def main_def)
  have e: "exit_code K S evs = Some 1
        \<and> (\<exists>t w. main K S evs = Some (t @ [Wifi WifiCleanup], 1)
              \<and> wifi_calls t = [WifiInit w] \<and> Close \<notin> set t)"
    if "\<not> help_requested (argv S)" "udp_selected (argv S) \<noteq> local_selected (argv S)"
      "wifi_init_result S = 0" "bind_result S < 0"
  proof -
    from startup_bind_failed [OF that] obtain t w where
      s: "startup S = Exit (t @ [Wifi WifiCleanup]) 1"
      and t: "wifi_calls t = [WifiInit w]" "Close \<notin> set t"
      by blast
    from s have "main K S evs = Some (t @ [Wifi WifiCleanup], 1)" by (rule main_Exit)
    with t show ?thesis by (auto simp add: exit_code_def)
  qed
  have f: "(exit_code K S evs = None \<or> exit_code K S evs = Some 0)
        \<and> (case_labels_distinct K \<and> 1 \<le> cmd_size K
            \<and> (startup_signals S \<noteq> [] \<or> (\<exists>x \<in> set evs. shutdown_trigger K x)) \<longrightarrow>
            exit_code K S evs = Some 0)"
    if "\<not> help_requested (argv S)" "udp_selected (argv S) \<noteq> local_selected (argv S)"
      "wifi_init_result S = 0" "0 \<le> bind_result S"
  proof -
    from startup_listening [OF that] obtain t0 where
      s: "startup S = Listening t0 (if startup_signals S = [] then 1 else 0)"
      by blast
    note m = main_Listening [OF s, of K evs]
    have 1: "exit_code K S evs = None \<or> exit_code K S evs = Some 0"
      by (cases "event_loop K (if startup_signals S = [] then 1 else 0) evs")
        (simp_all add: exit_code_def m)
    have 2: "exit_code K S evs = Some 0"
      if "case_labels_distinct K \<and> 1 \<le> cmd_size K
            \<and> (startup_signals S \<noteq> [] \<or> (\<exists>x \<in> set evs. shutdown_trigger K x))"
    proof -
      from that have "\<exists>t. event_loop K (if startup_signals S = [] then 1 else 0) evs = Some t"
        by (intro event_loop_returns) auto
      then show ?thesis by (auto simp add: exit_code_def m)
    qed
    from 1 2 show ?thesis by blast
  qed
  from a b c d e f show ?thesis by blast
qed

text \<open>
  The theorem at the sample constants: a help request among otherwise invalid arguments,
  no argument, an interface name only, both modes, a failing \<^verbatim>\<open>wifi_init\<close>, a failing
  \<^verbatim>\<open>bind\<close>, a run ended by \<^verbatim>\<open>QUIT\<close>, and a run that is still in the loop.
\<close>

theorem exit_codes_witness:
  "help_requested [''vanilla-pipe'', ''-udp'', ''-local'', ''--help'']
   \<and> exit_code example_proto
         (startup_with [''vanilla-pipe'', ''-udp'', ''-local'', ''--help''] 0 0) [] = Some 0
   \<and> exit_code example_proto (startup_with [''vanilla-pipe''] 0 0) [] = Some 1
   \<and> exit_code example_proto (startup_with [''vanilla-pipe'', ''en0''] 0 0) [] = Some 1
   \<and> exit_code example_proto (startup_with [''vanilla-pipe'', ''-udp'', ''-local''] 0 0) [] =
       Some 1
   \<and> exit_code example_proto (startup_with [''vanilla-pipe'', ''-udp''] (- 1) 0) [] = Some 1
   \<and> exit_code example_proto (startup_with [''vanilla-pipe'', ''-udp''] 0 (- 1)) [] = Some 1
   \<and> exit_code example_proto (startup_with [''vanilla-pipe'', ''-udp''] 0 0)
         [frame_event [9] [4]] = Some 0
   \<and> exit_code example_proto (startup_with [''vanilla-pipe'', ''-udp''] 0 0) [] = None"
proof -
  let ?p = "''vanilla-pipe''"
  have h: "help_requested (argv (startup_with [?p, ''-udp'', ''-local'', ''--help''] 0 0))"
    by code_simp
  have n: "length (argv (startup_with [?p] 0 0)) < 2"
    by code_simp
  have neither: "\<not> help_requested (argv (startup_with [?p, ''en0''] 0 0))
      \<and> udp_selected (argv (startup_with [?p, ''en0''] 0 0)) =
          local_selected (argv (startup_with [?p, ''en0''] 0 0))"
    by code_simp
  have both: "\<not> help_requested (argv (startup_with [?p, ''-udp'', ''-local''] 0 0))
      \<and> udp_selected (argv (startup_with [?p, ''-udp'', ''-local''] 0 0)) =
          local_selected (argv (startup_with [?p, ''-udp'', ''-local''] 0 0))"
    by code_simp
  have init: "\<not> help_requested (argv (startup_with [?p, ''-udp''] (- 1) 0))
      \<and> udp_selected (argv (startup_with [?p, ''-udp''] (- 1) 0)) \<noteq>
          local_selected (argv (startup_with [?p, ''-udp''] (- 1) 0))
      \<and> wifi_init_result (startup_with [?p, ''-udp''] (- 1) 0) \<noteq> 0"
    by code_simp
  have bind: "\<not> help_requested (argv (startup_with [?p, ''-udp''] 0 (- 1)))
      \<and> udp_selected (argv (startup_with [?p, ''-udp''] 0 (- 1))) \<noteq>
          local_selected (argv (startup_with [?p, ''-udp''] 0 (- 1)))
      \<and> wifi_init_result (startup_with [?p, ''-udp''] 0 (- 1)) = 0
      \<and> bind_result (startup_with [?p, ''-udp''] 0 (- 1)) < 0"
    by code_simp
  have ok: "\<not> help_requested (argv (startup_with [?p, ''-udp''] 0 0))
      \<and> udp_selected (argv (startup_with [?p, ''-udp''] 0 0)) \<noteq>
          local_selected (argv (startup_with [?p, ''-udp''] 0 0))
      \<and> wifi_init_result (startup_with [?p, ''-udp''] 0 0) = 0
      \<and> 0 \<le> bind_result (startup_with [?p, ''-udp''] 0 0)"
    by code_simp
  have quit: "case_labels_distinct example_proto \<and> 1 \<le> cmd_size example_proto
      \<and> (startup_signals (startup_with [?p, ''-udp''] 0 0) \<noteq> []
          \<or> (\<exists>x \<in> set [frame_event [9] [4]]. shutdown_trigger example_proto x))"
    by code_simp
  have a: "argv (startup_with [?p, ''-udp'', ''-local'', ''--help''] 0 0) =
      [?p, ''-udp'', ''-local'', ''--help'']"
    by (simp add: startup_with_def)
  have still: "exit_code example_proto (startup_with [?p, ''-udp''] 0 0) [] \<noteq> Some 0"
    by code_simp
  from exit_codes [of "startup_with [?p, ''-udp'', ''-local'', ''--help''] 0 0" example_proto "[]"] h
  have 1: "exit_code example_proto
      (startup_with [?p, ''-udp'', ''-local'', ''--help''] 0 0) [] = Some 0"
    by blast
  from exit_codes [of "startup_with [?p] 0 0" example_proto "[]"] n
  have 2: "exit_code example_proto (startup_with [?p] 0 0) [] = Some 1"
    by blast
  from exit_codes [of "startup_with [?p, ''en0''] 0 0" example_proto "[]"] neither
  have 3: "exit_code example_proto (startup_with [?p, ''en0''] 0 0) [] = Some 1"
    by blast
  from exit_codes [of "startup_with [?p, ''-udp'', ''-local''] 0 0" example_proto "[]"] both
  have 4: "exit_code example_proto (startup_with [?p, ''-udp'', ''-local''] 0 0) [] = Some 1"
    by blast
  from exit_codes [of "startup_with [?p, ''-udp''] (- 1) 0" example_proto "[]"] init
  have 5: "exit_code example_proto (startup_with [?p, ''-udp''] (- 1) 0) [] = Some 1"
    by blast
  from exit_codes [of "startup_with [?p, ''-udp''] 0 (- 1)" example_proto "[]"] bind
  have 6: "exit_code example_proto (startup_with [?p, ''-udp''] 0 (- 1)) [] = Some 1"
    by blast
  from exit_codes [of "startup_with [?p, ''-udp''] 0 0" example_proto "[frame_event [9] [4]]"]
    ok quit
  have 7: "exit_code example_proto (startup_with [?p, ''-udp''] 0 0) [frame_event [9] [4]] =
      Some 0"
    by blast
  from exit_codes [of "startup_with [?p, ''-udp''] 0 0" example_proto "[]"] ok still
  have 8: "exit_code example_proto (startup_with [?p, ''-udp''] 0 0) [] = None"
    by blast
  from h [unfolded a] 1 2 3 4 5 6 7 8 show ?thesis
    by blast
qed

subsection \<open>C8: which frames are answered\<close>

text \<open>
  C8 (as stated, refuted). The claim says that every frame with a defined transition is
  answered, \<^verbatim>\<open>UNBIND\<close> and \<^verbatim>\<open>QUIT\<close> included. At the sample constants, neither the
  \<^verbatim>\<open>UNBIND\<close> frame nor the \<^verbatim>\<open>QUIT\<close> frame is answered.
\<close>

theorem unbind_quit_no_response_counterexample:
  "cc_unbind example_proto = 3 \<and> cc_quit example_proto = 4
   \<and> loop_body example_proto 1 (frame_event [9] [3]) =
       (1, [Log (MsgReceived 3), Log MsgUnbindRequest, Wifi WifiDisassociate])
   \<and> sends (snd (loop_body example_proto 1 (frame_event [9] [3]))) = []
   \<and> loop_body example_proto 1 (frame_event [9] [4]) =
       (0, [Log (MsgReceived 4), Log MsgQuitRequest])
   \<and> sends (snd (loop_body example_proto 1 (frame_event [9] [4]))) = []"
  by code_simp

text \<open>
  C8 (as amended). A frame is sent to the sender for every \<^verbatim>\<open>SYNC\<close> frame and every
  \<^verbatim>\<open>CONNECT\<close> frame, exactly one each. \<^verbatim>\<open>UNBIND\<close> and \<^verbatim>\<open>QUIT\<close> frames and frames
  with an unrecognised control code are not answered. Of all of these only \<^verbatim>\<open>QUIT\<close>
  clears \<^verbatim>\<open>running\<close>; the others leave it as it was, so the loop goes on.
\<close>

theorem responses_for_sync_and_connect_only:
  assumes "case_labels_distinct K"
    and "1 \<le> cmd_size K"
    and "recv e = Datagram client (c # payload)"
  shows "(c = cc_sync K \<longrightarrow>
            sends (snd (loop_body K running e)) =
              [(client, status_response K (resp_stack e)
                  (if scan_result e = 0 then vanilla_success K else vanilla_err_generic K))]
            \<and> fst (loop_body K running e) = running)
         \<and> (c = cc_connect K \<longrightarrow>
            sends (snd (loop_body K running e)) = [(client, [cc_bind_ack K])]
            \<and> fst (loop_body K running e) = running)
         \<and> (c = cc_unbind K \<longrightarrow>
            sends (snd (loop_body K running e)) = []
            \<and> fst (loop_body K running e) = running)
         \<and> (c = cc_quit K \<longrightarrow>
            sends (snd (loop_body K running e)) = []
            \<and> fst (loop_body K running e) = 0)
         \<and> (\<not> is_command K c \<longrightarrow>
            sends (snd (loop_body K running e)) = []
            \<and> fst (loop_body K running e) = running)"
proof -
  note body = loop_body_datagram [OF assms(2,3), of running]
  show ?thesis
    unfolding body
    by (simp add: dispatch_sync dispatch_connect [OF assms(1)] dispatch_unbind [OF assms(1)]
        dispatch_quit [OF assms(1)] dispatch_unknown)
qed

text \<open>The theorem at the sample constants, for the five kinds of frame.\<close>

theorem responses_for_sync_and_connect_only_witness:
  "case_labels_distinct example_proto \<and> 1 \<le> cmd_size example_proto
   \<and> sends (snd (loop_body example_proto 1 (frame_event [9] [1]))) =
       [([9], status_response example_proto [] 0)]
   \<and> sends (snd (loop_body example_proto 1 (frame_event [9] [2]))) = [([9], [6])]
   \<and> sends (snd (loop_body example_proto 1 (frame_event [9] [3]))) = []
   \<and> fst (loop_body example_proto 1 (frame_event [9] [3])) = 1
   \<and> sends (snd (loop_body example_proto 1 (frame_event [9] [4]))) = []
   \<and> fst (loop_body example_proto 1 (frame_event [9] [4])) = 0
   \<and> sends (snd (loop_body example_proto 1 (frame_event [9] [255]))) = []
   \<and> fst (loop_body example_proto 1 (frame_event [9] [255])) = 1"
proof -
  have h1: "case_labels_distinct example_proto"
    by code_simp
  have h2: "1 \<le> cmd_size example_proto"
    by code_simp
  have r: "recv (frame_event [9] [c]) = Datagram [9] (c # [])" for c
    by (simp add: frame_event_def)
  have K: "cc_sync example_proto = 1" "cc_connect example_proto = 2"
    "cc_unbind example_proto = 3" "cc_quit example_proto = 4"
    "cc_bind_ack example_proto = 6" "vanilla_success example_proto = 0"
    by (simp_all add: example_proto_def)
  have e: "scan_result (frame_event [9] [1]) = 0" "resp_stack (frame_event [9] [1]) = []"
    by (simp_all add: frame_event_def)
  have u: "\<not> is_command example_proto 255"
    by code_simp
  note T = responses_for_sync_and_connect_only [OF h1 h2 r, of _ 1, unfolded K]
  from T [of 1] have 1: "sends (snd (loop_body example_proto 1 (frame_event [9] [1]))) =
      [([9], status_response example_proto [] 0)]"
    by (simp add: e)
  from T [of 2] have 2: "sends (snd (loop_body example_proto 1 (frame_event [9] [2]))) =
      [([9], [6])]"
    by simp
  from T [of 3] have 3: "sends (snd (loop_body example_proto 1 (frame_event [9] [3]))) = []
      \<and> fst (loop_body example_proto 1 (frame_event [9] [3])) = 1"
    by simp
  from T [of 4] have 4: "sends (snd (loop_body example_proto 1 (frame_event [9] [4]))) = []
      \<and> fst (loop_body example_proto 1 (frame_event [9] [4])) = 0"
    by simp
  from T [of 255] u have 5: "sends (snd (loop_body example_proto 1 (frame_event [9] [255]))) = []
      \<and> fst (loop_body example_proto 1 (frame_event [9] [255])) = 1"
    by blast
  from h1 h2 1 2 3 4 5 show ?thesis by blast
qed

subsection \<open>C9: CONNECT calls no Wi-Fi function\<close>

text \<open>
  C9. For every \<^verbatim>\<open>CONNECT\<close> frame the pass logs two lines and sends the
  \<^verbatim>\<open>BIND_ACK\<close> byte; it calls no Wi-Fi function. The payload has no influence: another
  payload behind the same control code gives the same result. No pass of the loop, no
  start-up, and no run of \<^verbatim>\<open>main\<close> that returns, calls \<^verbatim>\<open>wifi_associate\<close>.
\<close>

theorem connect_calls_no_wifi:
  assumes "case_labels_distinct K"
    and "1 \<le> cmd_size K"
    and "recv e = Datagram client (cc_connect K # payload)"
  shows "loop_body K running e =
           (running, [Log (MsgReceived (cc_connect K)), Log MsgConnectRequest,
                      SendTo client [cc_bind_ack K]])
         \<and> wifi_calls (snd (loop_body K running e)) = []
         \<and> loop_body K running (e\<lparr>recv := Datagram client (cc_connect K # payload')\<rparr>) =
             loop_body K running e
         \<and> \<not> list_ex is_associate (wifi_calls (snd (iteration K r x)))
         \<and> (\<forall>S t code r0. startup S = Exit t code \<or> startup S = Listening t r0 \<longrightarrow>
              \<not> list_ex is_associate (wifi_calls t))
         \<and> (\<forall>S evs t code. main K S evs = Some (t, code) \<longrightarrow>
              \<not> list_ex is_associate (wifi_calls t))"
proof -
  have body: "loop_body K running e' =
      (running, [Log (MsgReceived (cc_connect K)), Log MsgConnectRequest,
                 SendTo client [cc_bind_ack K]])"
    if "recv e' = Datagram client (cc_connect K # p)" for e' p
    using assms(1,2) that by (simp add: loop_body_datagram dispatch_connect)
  have 1: "loop_body K running (e\<lparr>recv := Datagram client (cc_connect K # payload')\<rparr>) =
      loop_body K running e"
    by (simp add: body [OF assms(3)] body [of _ payload'])
  have 2: "\<not> list_ex is_associate (wifi_calls (snd (iteration K r x)))"
    using iteration_loop_action by (rule loop_action_no_associate)
  have 3: "wifi_calls (snd (loop_body K running e)) = []"
    by (simp add: body [OF assms(3)])
  from body [OF assms(3)] 1 2 3 startup_no_associate main_no_associate show ?thesis
    by blast
qed

text \<open>The theorem at the sample constants, for two payloads.\<close>

theorem connect_calls_no_wifi_witness:
  "case_labels_distinct example_proto \<and> 1 \<le> cmd_size example_proto
   \<and> loop_body example_proto 1 (frame_event [9] [2, 87, 105, 105]) =
       (1, [Log (MsgReceived 2), Log MsgConnectRequest, SendTo [9] [6]])
   \<and> wifi_calls (snd (loop_body example_proto 1 (frame_event [9] [2, 87, 105, 105]))) = []
   \<and> loop_body example_proto 1
         ((frame_event [9] [2, 87, 105, 105]) \<lparr>recv := Datagram [9] (2 # [0, 0])\<rparr>) =
       loop_body example_proto 1 (frame_event [9] [2, 87, 105, 105])"
proof -
  let ?e = "frame_event [9] [2, 87, 105, 105]"
  have h1: "case_labels_distinct example_proto"
    by code_simp
  have h2: "1 \<le> cmd_size example_proto"
    by code_simp
  have h3: "recv ?e = Datagram [9] (cc_connect example_proto # [87, 105, 105])"
    by code_simp
  have K: "cc_connect example_proto = 2" "cc_bind_ack example_proto = 6"
    by (simp_all add: example_proto_def)
  show ?thesis
    using h1 h2 connect_calls_no_wifi [OF h1 h2 h3, of 1 "[0, 0]", unfolded K] by blast
qed

subsection \<open>C10: STATUS and BIND_ACK as received control codes\<close>

text \<open>
  C10. When the codes \<^verbatim>\<open>STATUS\<close> and \<^verbatim>\<open>BIND_ACK\<close> differ from the four command codes,
  a received frame that carries one of them takes the default branch, as any unrecognised
  code does: two log lines, nothing sent, no Wi-Fi call, \<^verbatim>\<open>running\<close> unchanged, and the
  loop goes on.
\<close>

theorem response_codes_are_unknown_commands:
  assumes "1 \<le> cmd_size K"
    and "\<not> is_command K (cc_status K)"
    and "\<not> is_command K (cc_bind_ack K)"
    and "recv e = Datagram client (c # payload)"
    and "c = cc_status K \<or> c = cc_bind_ack K"
  shows "loop_body K running e = (running, [Log (MsgReceived c), Log (MsgUnknown c)])
         \<and> sends (snd (loop_body K running e)) = []
         \<and> wifi_calls (snd (loop_body K running e)) = []
         \<and> (running \<noteq> 0 \<and> signals e = [] \<longrightarrow>
              event_loop K running (e # es) =
                map_option ((@) [Log (MsgReceived c), Log (MsgUnknown c)])
                  (event_loop K running es))"
proof -
  from assms(2,3,5) have "\<not> is_command K c" by blast
  with assms(1,4) have body:
    "loop_body K running e = (running, [Log (MsgReceived c), Log (MsgUnknown c)])"
    by (simp add: loop_body_datagram dispatch_unknown)
  have obs: "sends (snd (loop_body K running e)) = []"
    "wifi_calls (snd (loop_body K running e)) = []"
    by (simp_all add: body)
  from body obs event_loop_same_state [of running e K _ es] show ?thesis
    by blast
qed

text \<open>The theorem at the sample constants: \<^verbatim>\<open>STATUS\<close> is 5 and \<^verbatim>\<open>BIND_ACK\<close> is 6.\<close>

theorem response_codes_are_unknown_commands_witness:
  "1 \<le> cmd_size example_proto
   \<and> \<not> is_command example_proto (cc_status example_proto)
   \<and> \<not> is_command example_proto (cc_bind_ack example_proto)
   \<and> loop_body example_proto 1 (frame_event [9] [5, 0, 0, 0, 0]) =
       (1, [Log (MsgReceived 5), Log (MsgUnknown 5)])
   \<and> loop_body example_proto 1 (frame_event [9] [6]) =
       (1, [Log (MsgReceived 6), Log (MsgUnknown 6)])
   \<and> sends (snd (loop_body example_proto 1 (frame_event [9] [6]))) = []
   \<and> wifi_calls (snd (loop_body example_proto 1 (frame_event [9] [6]))) = []"
proof -
  have h1: "1 \<le> cmd_size example_proto"
    by code_simp
  have h2: "\<not> is_command example_proto (cc_status example_proto)"
    by code_simp
  have h3: "\<not> is_command example_proto (cc_bind_ack example_proto)"
    by code_simp
  have r5: "recv (frame_event [9] [5, 0, 0, 0, 0]) = Datagram [9] (5 # [0, 0, 0, 0])"
    by code_simp
  have r6: "recv (frame_event [9] [6]) = Datagram [9] (6 # [])"
    by code_simp
  have c5: "(5 :: byte) = cc_status example_proto \<or> (5 :: byte) = cc_bind_ack example_proto"
    by code_simp
  have c6: "(6 :: byte) = cc_status example_proto \<or> (6 :: byte) = cc_bind_ack example_proto"
    by code_simp
  from response_codes_are_unknown_commands [OF h1 h2 h3 r5 c5, of 1 "[]"]
    response_codes_are_unknown_commands [OF h1 h2 h3 r6 c6, of 1 "[]"] h1 h2 h3
  show ?thesis by blast
qed

end
